theory Spec2Isabelle
  imports Complex_Main "HOL-Library.Sublist"
begin

section \<open>Strings and character classes\<close>

text \<open>
  A Python \<open>str\<close> is modelled as a \<open>string\<close> whose characters are the code points
  0..255. The classes below are Python's \<open>\s\<close> / \<open>str.isspace\<close> and \<open>\w\<close> on that range.
\<close>

definition is_space :: "char \<Rightarrow> bool" where
  "is_space c = (let n = (of_char c :: nat) in
     (9 \<le> n \<and> n \<le> 13) \<or> (28 \<le> n \<and> n \<le> 32) \<or> n = 133 \<or> n = 160)"

definition is_word :: "char \<Rightarrow> bool" where
  "is_word c = (let n = (of_char c :: nat) in
     (48 \<le> n \<and> n \<le> 57) \<or> (65 \<le> n \<and> n \<le> 90) \<or> n = 95 \<or> (97 \<le> n \<and> n \<le> 122) \<or>
     n = 170 \<or> n = 178 \<or> n = 179 \<or> n = 181 \<or> n = 185 \<or> n = 186 \<or>
     (188 \<le> n \<and> n \<le> 190) \<or> (192 \<le> n \<and> n \<le> 214) \<or> (216 \<le> n \<and> n \<le> 246) \<or> 248 \<le> n)"

definition is_upper_ascii :: "char \<Rightarrow> bool" where
  "is_upper_ascii c = (65 \<le> (of_char c :: nat) \<and> (of_char c :: nat) \<le> 90)"

definition is_lower_ascii :: "char \<Rightarrow> bool" where
  "is_lower_ascii c = (97 \<le> (of_char c :: nat) \<and> (of_char c :: nat) \<le> 122)"

definition is_digit :: "char \<Rightarrow> bool" where
  "is_digit c = (48 \<le> (of_char c :: nat) \<and> (of_char c :: nat) \<le> 57)"

definition lower_ascii :: "char \<Rightarrow> char" where
  "lower_ascii c = (if is_upper_ascii c then char_of ((of_char c :: nat) + 32) else c)"

text \<open>\<open>str.strip()\<close>: leading and trailing whitespace removed.\<close>

definition strip :: "string \<Rightarrow> string" where
  "strip s = rev (dropWhile is_space (rev (dropWhile is_space s)))"

section \<open>Regular expressions as the \<open>re\<close> module runs them\<close>

text \<open>
  The five secret patterns use single-character classes under the quantifiers
  \<open>?\<close>, \<open>*\<close>, \<open>+\<close>, \<open>{n}\<close> (all greedy), the word boundary \<open>\b\<close> and one alternation.
  \<open>mt\<close> is the backtracking matcher: at a position with previous character \<open>prev\<close> and
  remaining text \<open>s\<close> it returns the length of the match the engine prefers, if any.
\<close>

datatype rx =
    One "char \<Rightarrow> bool"
  | Opt "char \<Rightarrow> bool"
  | Star "char \<Rightarrow> bool"
  | Plus "char \<Rightarrow> bool"
  | Rep nat "char \<Rightarrow> bool"
  | WordB
  | Alt "rx list" "rx list"

definition wordo :: "char option \<Rightarrow> bool" where
  "wordo p = (case p of None \<Rightarrow> False | Some c \<Rightarrow> is_word c)"

definition hd_opt :: "string \<Rightarrow> char option" where
  "hd_opt s = (case s of [] \<Rightarrow> None | c # _ \<Rightarrow> Some c)"

function mt :: "rx list \<Rightarrow> char option \<Rightarrow> string \<Rightarrow> nat option" where
  "mt [] prev s = Some 0"
| "mt (One p # r) prev [] = None"
| "mt (One p # r) prev (c # cs) = (if p c then map_option Suc (mt r (Some c) cs) else None)"
| "mt (Opt p # r) prev [] = mt r prev []"
| "mt (Opt p # r) prev (c # cs) =
     (if p c then (case mt r (Some c) cs of Some n \<Rightarrow> Some (Suc n) | None \<Rightarrow> mt r prev (c # cs))
      else mt r prev (c # cs))"
| "mt (Star p # r) prev [] = mt r prev []"
| "mt (Star p # r) prev (c # cs) =
     (if p c then (case mt (Star p # r) (Some c) cs of Some n \<Rightarrow> Some (Suc n) | None \<Rightarrow> mt r prev (c # cs))
      else mt r prev (c # cs))"
| "mt (Plus p # r) prev [] = None"
| "mt (Plus p # r) prev (c # cs) = (if p c then map_option Suc (mt (Star p # r) (Some c) cs) else None)"
| "mt (Rep 0 p # r) prev s = mt r prev s"
| "mt (Rep (Suc k) p # r) prev [] = None"
| "mt (Rep (Suc k) p # r) prev (c # cs) =
     (if p c then map_option Suc (mt (Rep k p # r) (Some c) cs) else None)"
| "mt (WordB # r) prev s = (if wordo prev \<noteq> wordo (hd_opt s) then mt r prev s else None)"
| "mt (Alt a b # r) prev s = (case mt (a @ r) prev s of Some n \<Rightarrow> Some n | None \<Rightarrow> mt (b @ r) prev s)"
  by pat_completeness auto
termination
  by (relation "measures [\<lambda>(r, p, s). length s, \<lambda>(r, p, s). size_list size r]") auto


section \<open>Secret redaction\<close>

definition lit :: "string \<Rightarrow> rx list" where
  "lit s = map (\<lambda>l. One (\<lambda>c. c = l)) s"

text \<open>A literal under the flag \<open>(?i)\<close>.\<close>

definition liti :: "string \<Rightarrow> rx list" where
  "liti s = map (\<lambda>l. One (\<lambda>c. lower_ascii c = lower_ascii l)) s"

text \<open>The class \<open>[A-Za-z0-9\-\._~\+\/]\<close>.\<close>

definition tokch :: "char \<Rightarrow> bool" where
  "tokch c = (is_upper_ascii c \<or> is_lower_ascii c \<or> is_digit c \<or>
     c = CHR ''-'' \<or> c = CHR ''.'' \<or> c = CHR ''_'' \<or> c = CHR ''~'' \<or> c = CHR ''+'' \<or> c = CHR ''/'')"

definition eqch :: "char \<Rightarrow> bool" where
  "eqch c = (c = CHR ''='')"

text \<open>The class \<open>[0-9A-Z]\<close>.\<close>

definition akch :: "char \<Rightarrow> bool" where
  "akch c = (is_digit c \<or> is_upper_ascii c)"

text \<open>The class \<open>[-_ ]\<close>.\<close>

definition sepch :: "char \<Rightarrow> bool" where
  "sepch c = (c = CHR ''-'' \<or> c = CHR ''_'' \<or> c = CHR '' '')"

text \<open>The class \<open>[:=]\<close>.\<close>

definition asgch :: "char \<Rightarrow> bool" where
  "asgch c = (c = CHR '':'' \<or> c = CHR ''='')"

text \<open>The class \<open>['\"]\<close>: the apostrophe (39) and the double quote (34).\<close>

definition quotech :: "char \<Rightarrow> bool" where
  "quotech c = ((of_char c :: nat) = 39 \<or> (of_char c :: nat) = 34)"

text \<open>The class \<open>[^'\"\s]\<close>.\<close>

definition valch :: "char \<Rightarrow> bool" where
  "valch c = (\<not> quotech c \<and> \<not> is_space c)"

definition pat_auth_bearer :: "rx list" where
  "pat_auth_bearer = [WordB] @ liti ''Authorization:'' @ [Star is_space] @ liti ''Bearer'' @
     [Plus is_space, Plus tokch, Star eqch, WordB]"

definition pat_bearer :: "rx list" where
  "pat_bearer = [WordB] @ liti ''Bearer'' @ [Plus is_space, Plus tokch, Star eqch, WordB]"

definition pat_akia :: "rx list" where
  "pat_akia = [WordB] @ lit ''AKIA'' @ [Rep 16 akch, WordB]"

definition pat_api_key :: "rx list" where
  "pat_api_key = [WordB, Alt (liti ''openai'') (liti ''api''), Opt sepch] @ liti ''key'' @
     [WordB, Star is_space, One asgch, Star is_space, Opt quotech, Plus valch]"

definition pat_token :: "rx list" where
  "pat_token = [WordB] @ liti ''token'' @
     [WordB, Star is_space, One asgch, Star is_space, Opt quotech, Plus valch]"

definition SECRET_PATTERNS :: "rx list list" where
  "SECRET_PATTERNS = [pat_auth_bearer, pat_bearer, pat_akia, pat_api_key, pat_token]"

definition REDACTED :: string where
  "REDACTED = ''[REDACTED]''"

text \<open>
  \<open>pat.sub("[REDACTED]", text)\<close>: the text is scanned from the left; at each position the
  matcher is tried, a match is replaced and the scan goes on after it. An empty match is
  replaced too and the scan moves one character on (no secret pattern has one).
\<close>

function sub_from :: "rx list \<Rightarrow> char option \<Rightarrow> string \<Rightarrow> string" where
  "sub_from pat prev [] = (case mt pat prev [] of Some _ \<Rightarrow> REDACTED | None \<Rightarrow> [])"
| "sub_from pat prev (c # cs) =
     (case mt pat prev (c # cs) of
        None \<Rightarrow> c # sub_from pat (Some c) cs
      | Some 0 \<Rightarrow> REDACTED @ c # sub_from pat (Some c) cs
      | Some (Suc k) \<Rightarrow> REDACTED @ sub_from pat (Some ((c # cs) ! k)) (drop k cs))"
  by pat_completeness auto
termination
  by (relation "measure (\<lambda>(pat, prev, s). length s)") auto

definition sub :: "rx list \<Rightarrow> string \<Rightarrow> string" where
  "sub pat text = sub_from pat None text"

definition redact_secrets :: "string \<Rightarrow> string" where
  "redact_secrets text = foldl (\<lambda>redacted pat. sub pat redacted) text SECRET_PATTERNS"


section \<open>Values, exceptions and the remote service\<close>

text \<open>
  What a tool returns is a Python dict; \<open>jv\<close> is the value type of such dicts, a dict being
  the list of its items in insertion order (keys distinct).
\<close>

datatype jv =
    JNone
  | JBool bool
  | JInt int
  | JFloat rat
  | JStr string
  | JList "jv list"
  | JDict "(string \<times> jv) list"

text \<open>
  The exceptions the code tells apart (\<open>except TypeError\<close>, \<open>except AttributeError\<close>,
  \<open>except Exception\<close>), each with its message \<open>str(e)\<close>.
\<close>

datatype exn = TypeError string | AttributeError string | OtherError string

fun exn_str :: "exn \<Rightarrow> string" where
  "exn_str (TypeError m) = m"
| "exn_str (AttributeError m) = m"
| "exn_str (OtherError m) = m"

record store =
  store_id :: string
  store_name :: "string option"

record store_page =
  sp_data :: "store list"
  sp_has_more :: "bool option"
  sp_last_id :: "string option"

record file_page =
  fp_data :: "string list"
  fp_has_more :: "bool option"
  fp_last_id :: "string option"

record file_detail =
  fd_id :: string
  fd_created_at :: "int option"
  fd_status :: "string option"
  fd_attributes :: "(string \<times> jv) list option"

record chunk =
  c_type :: "string option"
  c_text :: string

record search_item =
  si_file_id :: string
  si_filename :: string
  si_score :: jv
  si_attributes :: "(string \<times> jv) list option"
  si_content :: "chunk list"

record search_results =
  sr_data :: "search_item list"
  sr_search_query :: "string option"
  sr_has_more :: "bool option"

text \<open>
  What \<open>files.content\<close> returns, as \<open>get_memory_content\<close> reads it: an object with a
  \<open>get\<close> method or one without (reading it raises \<open>AttributeError\<close>); under the key
  \<open>content\<close> nothing, a list of chunks, or a value that cannot be iterated (iterating it
  raises \<open>TypeError\<close>); a chunk with a \<open>get\<close> method, with its \<open>type\<close> and \<open>text\<close>, or one
  without. The strings are the messages of the exceptions.
\<close>

datatype content_chunk =
    ChunkDict "string option" "string option"
  | ChunkNoGet string

datatype content_field =
    ContentAbsent
  | ContentItems "content_chunk list"
  | ContentNotIterable string

datatype content_obj =
    ObjDict content_field
  | ObjNoGet string

record deleted_obj =
  do_deleted :: "bool option"

text \<open>The keyword under which \<open>search\<close> receives the filter.\<close>

datatype filter_param = Filters | AttributeFilter

text \<open>The remote calls the code makes, with their arguments.\<close>

datatype call =
    CListStores "string option"
  | CCreateStore string
  | CUpload string string string
  | CUpdate string string "(string \<times> jv) list"
  | CSearch filter_param string string int bool "jv option"
  | CListFiles string int "string option"
  | CRetrieve string string
  | CContent string string
  | CDelete string string

datatype outcome = Returned | Raised

type_synonym event = "call \<times> outcome"

text \<open>
  The remote service is any behaviour: each call answers from the history of the calls
  made so far and its arguments, with a value or an exception.
\<close>

record remote =
  vector_stores_list :: "event list \<Rightarrow> string option \<Rightarrow> exn + store_page"
  vector_stores_create :: "event list \<Rightarrow> string \<Rightarrow> exn + store"
  files_upload_and_poll :: "event list \<Rightarrow> string \<Rightarrow> string \<Rightarrow> string \<Rightarrow> exn + string"
  files_update :: "event list \<Rightarrow> string \<Rightarrow> string \<Rightarrow> (string \<times> jv) list \<Rightarrow> exn + unit"
  vector_stores_search ::
    "event list \<Rightarrow> filter_param \<Rightarrow> string \<Rightarrow> string \<Rightarrow> int \<Rightarrow> bool \<Rightarrow> jv option \<Rightarrow> exn + search_results"
  files_list :: "event list \<Rightarrow> string \<Rightarrow> int \<Rightarrow> string option \<Rightarrow> exn + file_page"
  files_retrieve :: "event list \<Rightarrow> string \<Rightarrow> string \<Rightarrow> exn + file_detail"
  files_content :: "event list \<Rightarrow> string \<Rightarrow> string \<Rightarrow> exn + content_obj"
  files_delete :: "event list \<Rightarrow> string \<Rightarrow> string \<Rightarrow> exn + deleted_obj"

text \<open>
  Configuration read at start, and what a call reads from the clock and \<open>hashlib\<close>.
  \<open>_sha256_text\<close> encodes the text first, which raises when the text cannot be encoded:
  \<open>sha256_text\<close> gives the digest or the exception.
\<close>

record config =
  VECTOR_STORE_NAME :: string
  VECTOR_STORE_ID_ENV :: "string option"
  MAX_MEMORY_CHARS :: int
  REDACT_SECRETS_DEFAULT :: bool

record env =
  sha256_text :: "string \<Rightarrow> exn + string"
  time_time :: int
  utc_now_iso :: string

text \<open>The process state: the cached identifier, and the remote calls made so far.\<close>

record world =
  vector_store_id_cache :: "string option"
  history :: "event list"

text \<open>Truth value of an \<open>Optional[str]\<close>: \<open>None\<close> and the empty string are false.\<close>

definition truthy :: "string option \<Rightarrow> bool" where
  "truthy x = (case x of None \<Rightarrow> False | Some s \<Rightarrow> s \<noteq> [])"

definition initial_world :: "config \<Rightarrow> world" where
  "initial_world cfg =
     \<lparr>vector_store_id_cache = (if truthy (VECTOR_STORE_ID_ENV cfg) then VECTOR_STORE_ID_ENV cfg else None),
      history = []\<rparr>"

section \<open>Collection resolver\<close>

text \<open>
  The paging loop of \<open>_get_or_create_vector_store_id\<close>: \<open>Inr (Some id)\<close> when a store of
  the configured name is found, \<open>Inr None\<close> when the pages are exhausted, \<open>Inl e\<close> when
  the listing raises. The loop has no bound of its own, hence the option: \<open>None\<close> is a
  loop that never ends.
\<close>

partial_function (option) find_store_loop ::
  "remote \<Rightarrow> string \<Rightarrow> event list \<Rightarrow> string option \<Rightarrow> (event list \<times> (exn + string option)) option"
where
  "find_store_loop rm name h after =
     (case vector_stores_list rm h after of
        Inl e \<Rightarrow> Some (h @ [(CListStores after, Raised)], Inl e)
      | Inr page \<Rightarrow>
          (case find (\<lambda>st. store_name st = Some name) (sp_data page) of
             Some st \<Rightarrow> Some (h @ [(CListStores after, Returned)], Inr (Some (store_id st)))
           | None \<Rightarrow>
               if \<not> (case sp_has_more page of None \<Rightarrow> False | Some b \<Rightarrow> b)
               then Some (h @ [(CListStores after, Returned)], Inr None)
               else if \<not> truthy (sp_last_id page)
               then Some (h @ [(CListStores after, Returned)], Inr None)
               else find_store_loop rm name (h @ [(CListStores after, Returned)]) (sp_last_id page)))"

text \<open>
  \<open>_get_or_create_vector_store_id\<close>, the part under the lock: look for the store by name,
  create it when no page has it, and cache the identifier.
\<close>

definition get_or_create_slow :: "config \<Rightarrow> remote \<Rightarrow> world \<Rightarrow> (world \<times> (exn + string)) option" where
  "get_or_create_slow cfg rm w =
     (case find_store_loop rm (VECTOR_STORE_NAME cfg) (history w) None of
        None \<Rightarrow> None
      | Some (h, Inl e) \<Rightarrow> Some (w\<lparr>history := h\<rparr>, Inl e)
      | Some (h, Inr (Some sid)) \<Rightarrow> Some (\<lparr>vector_store_id_cache = Some sid, history = h\<rparr>, Inr sid)
      | Some (h, Inr None) \<Rightarrow>
          (case vector_stores_create rm h (VECTOR_STORE_NAME cfg) of
             Inl e \<Rightarrow> Some (w\<lparr>history := h @ [(CCreateStore (VECTOR_STORE_NAME cfg), Raised)]\<rparr>, Inl e)
           | Inr created \<Rightarrow>
               Some (\<lparr>vector_store_id_cache = Some (store_id created),
                      history = h @ [(CCreateStore (VECTOR_STORE_NAME cfg), Returned)]\<rparr>,
                     Inr (store_id created))))"

text \<open>
  \<open>_get_or_create_vector_store_id\<close>. Calls are taken one after the other, so the second
  look at the cache, under the lock, sees what the first saw.
\<close>

definition get_or_create_vector_store_id ::
  "config \<Rightarrow> remote \<Rightarrow> world \<Rightarrow> (world \<times> (exn + string)) option" where
  "get_or_create_vector_store_id cfg rm w =
     (if truthy (vector_store_id_cache w)
      then (case vector_store_id_cache w of Some c \<Rightarrow> Some (w, Inr c) | None \<Rightarrow> None)
      else get_or_create_slow cfg rm w)"


section \<open>Library functions the tools use\<close>

text \<open>\<open>str(n)\<close> of an integer.\<close>

fun str_nat :: "nat \<Rightarrow> string" where
  "str_nat n = (if n < 10 then [char_of (48 + n)] else str_nat (n div 10) @ [char_of (48 + n mod 10)])"

declare str_nat.simps [simp del]

definition str_int :: "int \<Rightarrow> string" where
  "str_int i = (if i < 0 then CHR ''-'' # str_nat (nat (- i)) else str_nat (nat i))"

text \<open>
  \<open>json.dumps(tags, ensure_ascii=False)\<close> of a list of strings: items joined by a comma and
  a space, each in double quotes with the quote, the backslash and the control characters
  escaped.
\<close>

definition hex_digit :: "nat \<Rightarrow> char" where
  "hex_digit d = (if d < 10 then char_of (48 + d) else char_of (87 + d))"

definition json_escape_char :: "char \<Rightarrow> string" where
  "json_escape_char c = (let n = (of_char c :: nat) in
     if n = 34 then [CHR 0x5C, CHR 0x22]
     else if n = 92 then [CHR 0x5C, CHR 0x5C]
     else if n = 10 then [CHR 0x5C, CHR ''n'']
     else if n = 13 then [CHR 0x5C, CHR ''r'']
     else if n = 9 then [CHR 0x5C, CHR ''t'']
     else if n = 8 then [CHR 0x5C, CHR ''b'']
     else if n = 12 then [CHR 0x5C, CHR ''f'']
     else if n < 32 then [CHR 0x5C, CHR ''u'', CHR ''0'', CHR ''0'', hex_digit (n div 16), hex_digit (n mod 16)]
     else [c])"

definition json_dumps_str :: "string \<Rightarrow> string" where
  "json_dumps_str s = CHR 0x22 # concat (map json_escape_char s) @ [CHR 0x22]"

fun join :: "string \<Rightarrow> string list \<Rightarrow> string" where
  "join sep [] = []"
| "join sep [x] = x"
| "join sep (x # y # ys) = x @ sep @ join sep (y # ys)"

definition json_dumps :: "string list \<Rightarrow> string" where
  "json_dumps tags = CHR ''['' # join '', '' (map json_dumps_str tags) @ '']''"

text \<open>A parameter with a default value: \<open>None\<close> is the parameter left out.\<close>

definition dflt :: "'a \<Rightarrow> 'a option \<Rightarrow> 'a" where
  "dflt d x = (case x of None \<Rightarrow> d | Some v \<Rightarrow> v)"

section \<open>Attribute filter builder\<close>

definition eq_leaf :: "string \<Rightarrow> string \<Rightarrow> jv" where
  "eq_leaf k v = JDict [(''type'', JStr ''eq''), (''key'', JStr k), (''value'', JStr v)]"

definition build_attribute_filter ::
  "string option \<Rightarrow> string option \<Rightarrow> string list option \<Rightarrow> string option \<Rightarrow> jv option" where
  "build_attribute_filter user_id session_id tags memory_type =
     (let filters0 = [];
          filters1 = (case user_id of
                        Some u \<Rightarrow> if u \<noteq> [] then filters0 @ [eq_leaf ''user_id'' u] else filters0
                      | None \<Rightarrow> filters0);
          filters2 = (case session_id of
                        Some s \<Rightarrow> if s \<noteq> [] then filters1 @ [eq_leaf ''session_id'' s] else filters1
                      | None \<Rightarrow> filters1);
          filters3 = (case memory_type of
                        Some t \<Rightarrow> if t \<noteq> [] then filters2 @ [eq_leaf ''type'' t] else filters2
                      | None \<Rightarrow> filters2);
          filters4 = (case tags of
                        Some ts \<Rightarrow> if ts \<noteq> [] then filters3 @ [eq_leaf ''tags_json'' (json_dumps ts)] else filters3
                      | None \<Rightarrow> filters3)
      in if filters4 = [] then None
         else if length filters4 = 1 then Some (filters4 ! 0)
         else Some (JDict [(''type'', JStr ''and''), (''filters'', JList filters4)]))"

section \<open>Tools\<close>

definition error_result :: "string \<Rightarrow> jv" where
  "error_result msg = JDict [(''status'', JStr ''error''), (''error'', JStr msg)]"

definition msg_memory_empty :: string where
  "msg_memory_empty = ''memory deve ser uma string n'' @ [CHR 0xE3] @ ''o-vazia''"

definition msg_memory_too_long :: "config \<Rightarrow> string" where
  "msg_memory_too_long cfg =
     ''memory excede o limite do lab ('' @ str_int (MAX_MEMORY_CHARS cfg) @ '' chars).''"

definition msg_query_empty :: string where
  "msg_query_empty = ''query deve ser uma string n'' @ [CHR 0xE3] @ ''o-vazia''"

definition msg_no_content :: string where
  "msg_no_content = ''Seu openai SDK n'' @ [CHR 0xE3] @ ''o exp'' @ [CHR 0xF5] @
     ''e client.vector_stores.files.content(...). Atualize o pacote openai.''"

definition health :: "config \<Rightarrow> env \<Rightarrow> world \<Rightarrow> jv" where
  "health cfg ev w = JDict
     [(''status'', JStr ''ok''),
      (''vector_store_name'', JStr (VECTOR_STORE_NAME cfg)),
      (''vector_store_id_cached'', JBool (truthy (vector_store_id_cache w))),
      (''time_utc'', JStr (utc_now_iso ev))]"

subsection \<open>\<open>save_memory\<close>\<close>

record save_args =
  sa_memory :: string
  sa_user_id :: "string option"
  sa_session_id :: "string option"
  sa_memory_type :: "string option"
  sa_tags :: "string list option"
  sa_redact_secrets :: "bool option"

text \<open>The class \<open>[^a-zA-Z0-9_\-]\<close> of the file name's sanitizer, negated.\<close>

definition safe_char :: "char \<Rightarrow> bool" where
  "safe_char c = (is_lower_ascii c \<or> is_upper_ascii c \<or> is_digit c \<or> c = CHR ''_'' \<or> c = CHR ''-'')"

definition save_attributes ::
  "env \<Rightarrow> string \<Rightarrow> string \<Rightarrow> string \<Rightarrow> bool \<Rightarrow> string option \<Rightarrow> string list option \<Rightarrow> (string \<times> jv) list" where
  "save_attributes ev user_id memory_type mem_hash do_redact session_id tags =
     (let attributes0 =
            [(''user_id'', JStr (take 64 user_id)),
             (''type'', JStr (take 64 memory_type)),
             (''timestamp_utc'', JStr (take 64 (utc_now_iso ev))),
             (''sha256'', JStr (take 64 mem_hash)),
             (''redacted'', JBool do_redact)];
          attributes1 = (case session_id of
                           Some s \<Rightarrow> if s \<noteq> [] then attributes0 @ [(''session_id'', JStr (take 64 s))] else attributes0
                         | None \<Rightarrow> attributes0)
      in case tags of
           Some ts \<Rightarrow> if ts \<noteq> [] then attributes1 @ [(''tags_json'', JStr (take 512 (json_dumps ts)))] else attributes1
         | None \<Rightarrow> attributes1)"

text \<open>The \<open>try\<close> block of \<open>save_memory\<close> with its \<open>except Exception\<close>.\<close>

definition save_try ::
  "env \<Rightarrow> remote \<Rightarrow> string \<Rightarrow> string \<Rightarrow> string \<Rightarrow> string \<Rightarrow> string \<Rightarrow> string \<Rightarrow> bool \<Rightarrow>
   string option \<Rightarrow> string list option \<Rightarrow> world \<Rightarrow> world \<times> jv" where
  "save_try ev rm vector_store_id cleaned filename user_id memory_type mem_hash do_redact session_id tags w =
     (case files_upload_and_poll rm (history w) vector_store_id cleaned filename of
        Inl e \<Rightarrow>
          (w\<lparr>history := history w @ [(CUpload vector_store_id cleaned filename, Raised)]\<rparr>,
           error_result (exn_str e))
      | Inr file_id \<Rightarrow>
          (let h1 = history w @ [(CUpload vector_store_id cleaned filename, Returned)];
               attributes = save_attributes ev user_id memory_type mem_hash do_redact session_id tags
           in case files_update rm h1 vector_store_id file_id attributes of
                Inl e \<Rightarrow>
                  (w\<lparr>history := h1 @ [(CUpdate vector_store_id file_id attributes, Raised)]\<rparr>,
                   error_result (exn_str e))
              | Inr u \<Rightarrow>
                  (w\<lparr>history := h1 @ [(CUpdate vector_store_id file_id attributes, Returned)]\<rparr>,
                   JDict [(''status'', JStr ''saved''),
                          (''vector_store_id'', JStr vector_store_id),
                          (''file_id'', JStr file_id),
                          (''sha256'', JStr mem_hash),
                          (''attributes'', JDict attributes)])))"

text \<open>The local values of \<open>save_memory\<close>: the redaction flag, the text saved, the file name.\<close>

definition save_do_redact :: "config \<Rightarrow> save_args \<Rightarrow> bool" where
  "save_do_redact cfg a = (case sa_redact_secrets a of None \<Rightarrow> REDACT_SECRETS_DEFAULT cfg | Some b \<Rightarrow> b)"

definition save_cleaned :: "config \<Rightarrow> save_args \<Rightarrow> string" where
  "save_cleaned cfg a = (if save_do_redact cfg a then redact_secrets (sa_memory a) else sa_memory a)"

definition save_filename :: "env \<Rightarrow> save_args \<Rightarrow> string" where
  "save_filename ev a =
     (let ts = time_time ev;
          safe_user = take 32 (map (\<lambda>c. if safe_char c then c else CHR ''_'') (dflt ''default'' (sa_user_id a)))
      in ''memory_'' @ safe_user @ ''_'' @ str_int ts @ ''.txt'')"

text \<open>
  \<open>save_memory\<close>. The result is \<open>None\<close> when the resolver's loop never ends, \<open>Inl e\<close> when
  the exception \<open>e\<close> leaves the tool, \<open>Inr d\<close> when the tool returns the dict \<open>d\<close>. The
  resolver and the hash are outside the \<open>try\<close> block.
\<close>

definition save_memory ::
  "config \<Rightarrow> env \<Rightarrow> remote \<Rightarrow> save_args \<Rightarrow> world \<Rightarrow> (world \<times> (exn + jv)) option" where
  "save_memory cfg ev rm a w =
     (let memory = sa_memory a;
          user_id = dflt ''default'' (sa_user_id a);
          memory_type = dflt ''note'' (sa_memory_type a)
      in if strip memory = [] then Some (w, Inr (error_result msg_memory_empty))
         else if int (length memory) > MAX_MEMORY_CHARS cfg
         then Some (w, Inr (error_result (msg_memory_too_long cfg)))
         else
           (let do_redact = save_do_redact cfg a;
                cleaned = save_cleaned cfg a
            in case get_or_create_vector_store_id cfg rm w of
                 None \<Rightarrow> None
               | Some (w1, Inl e) \<Rightarrow> Some (w1, Inl e)
               | Some (w1, Inr vector_store_id) \<Rightarrow>
                   (case sha256_text ev cleaned of
                      Inl e \<Rightarrow> Some (w1, Inl e)
                    | Inr mem_hash \<Rightarrow>
                        (let filename = save_filename ev a;
                             (w2, d) = save_try ev rm vector_store_id cleaned filename user_id memory_type
                                         mem_hash do_redact (sa_session_id a) (sa_tags a) w1
                         in Some (w2, Inr d)))))"


subsection \<open>\<open>search_memory\<close>\<close>

record search_args =
  sq_query :: string
  sq_user_id :: "string option"
  sq_session_id :: "string option"
  sq_memory_type :: "string option"
  sq_tags :: "string list option"
  sq_max_results :: "int option"
  sq_rewrite_query :: "bool option"
  sq_return_full_items :: "bool option"

definition opt_str :: "string option \<Rightarrow> jv" where
  "opt_str x = (case x of None \<Rightarrow> JNone | Some v \<Rightarrow> JStr v)"

definition opt_attrs :: "(string \<times> jv) list option \<Rightarrow> jv" where
  "opt_attrs x = (case x of None \<Rightarrow> JNone | Some a \<Rightarrow> JDict a)"

definition chunk_texts :: "chunk list \<Rightarrow> string list" where
  "chunk_texts cs = map c_text (filter (\<lambda>c. c_type c = Some ''text'') cs)"

definition full_item :: "search_item \<Rightarrow> jv" where
  "full_item item = JDict
     [(''file_id'', JStr (si_file_id item)),
      (''filename'', JStr (si_filename item)),
      (''score'', si_score item),
      (''attributes'', opt_attrs (si_attributes item)),
      (''content_texts'', JList (map JStr (chunk_texts (si_content item))))]"

definition shape_results :: "string \<Rightarrow> string \<Rightarrow> bool \<Rightarrow> search_results \<Rightarrow> jv" where
  "shape_results vector_store_id query return_full_items results =
     (if return_full_items
      then JDict
        [(''status'', JStr ''ok''),
         (''vector_store_id'', JStr vector_store_id),
         (''search_query'', JStr (dflt query (sr_search_query results))),
         (''results'', JList (map full_item (sr_data results))),
         (''has_more'', JBool (dflt False (sr_has_more results)))]
      else JDict
        [(''status'', JStr ''ok''),
         (''vector_store_id'', JStr vector_store_id),
         (''search_query'', JStr (dflt query (sr_search_query results))),
         (''results'', JList (map JStr (concat (map (\<lambda>item. chunk_texts (si_content item)) (sr_data results))))),
         (''has_more'', JBool (dflt False (sr_has_more results)))])"

text \<open>
  The remote search of \<open>search_memory\<close>: the keyword \<open>filters\<close> first, and the keyword
  \<open>attribute_filter\<close> in the handler of \<open>except TypeError\<close>.
\<close>

definition search_call ::
  "remote \<Rightarrow> string \<Rightarrow> string \<Rightarrow> int \<Rightarrow> bool \<Rightarrow> jv option \<Rightarrow> world \<Rightarrow> world \<times> (exn + search_results)" where
  "search_call rm vector_store_id query max_results rewrite_query attribute_filter w =
     (let c1 = CSearch Filters vector_store_id query max_results rewrite_query attribute_filter;
          c2 = CSearch AttributeFilter vector_store_id query max_results rewrite_query attribute_filter
      in case vector_stores_search rm (history w) Filters vector_store_id query max_results rewrite_query
                attribute_filter of
           Inr results \<Rightarrow> (w\<lparr>history := history w @ [(c1, Returned)]\<rparr>, Inr results)
         | Inl (TypeError m) \<Rightarrow>
             (case vector_stores_search rm (history w @ [(c1, Raised)]) AttributeFilter vector_store_id query
                     max_results rewrite_query attribute_filter of
                Inr results \<Rightarrow> (w\<lparr>history := history w @ [(c1, Raised), (c2, Returned)]\<rparr>, Inr results)
              | Inl e \<Rightarrow> (w\<lparr>history := history w @ [(c1, Raised), (c2, Raised)]\<rparr>, Inl e))
         | Inl e \<Rightarrow> (w\<lparr>history := history w @ [(c1, Raised)]\<rparr>, Inl e))"

definition search_memory ::
  "config \<Rightarrow> remote \<Rightarrow> search_args \<Rightarrow> world \<Rightarrow> (world \<times> (exn + jv)) option" where
  "search_memory cfg rm a w =
     (let query = sq_query a;
          user_id = dflt ''default'' (sq_user_id a);
          rewrite_query = dflt True (sq_rewrite_query a);
          return_full_items = dflt False (sq_return_full_items a)
      in if strip query = [] then Some (w, Inr (error_result msg_query_empty))
         else
           (let max_results = max 1 (min (dflt 8 (sq_max_results a)) 50)
            in case get_or_create_vector_store_id cfg rm w of
                 None \<Rightarrow> None
               | Some (w1, Inl e) \<Rightarrow> Some (w1, Inl e)
               | Some (w1, Inr vector_store_id) \<Rightarrow>
                   (let attribute_filter =
                          build_attribute_filter (Some user_id) (sq_session_id a) (sq_tags a) (sq_memory_type a)
                    in case search_call rm vector_store_id query max_results rewrite_query attribute_filter w1 of
                         (w2, Inl e) \<Rightarrow> Some (w2, Inl e)
                       | (w2, Inr results) \<Rightarrow>
                           Some (w2, Inr (shape_results vector_store_id query return_full_items results)))))"

subsection \<open>\<open>list_memories\<close>\<close>

text \<open>
  \<open>status_filter\<close> may be passed as \<open>None\<close>, which is not its default: \<open>None\<close> here is the
  parameter left out, \<open>Some None\<close> the value \<open>None\<close>.
\<close>

record list_args =
  la_user_id :: "string option"
  la_limit :: "int option"
  la_status_filter :: "string option option"

definition list_item :: "file_detail \<Rightarrow> (string \<times> jv) list \<Rightarrow> jv" where
  "list_item detail attrs = JDict
     [(''file_id'', JStr (fd_id detail)),
      (''created_at'', (case fd_created_at detail of None \<Rightarrow> JNone | Some t \<Rightarrow> JInt t)),
      (''status'', opt_str (fd_status detail)),
      (''attributes'', JDict attrs)]"

text \<open>\<open>getattr(detail, "attributes", None) or {}\<close>.\<close>

definition attrs_of :: "file_detail \<Rightarrow> (string \<times> jv) list" where
  "attrs_of detail = (case fd_attributes detail of None \<Rightarrow> [] | Some a \<Rightarrow> a)"

text \<open>The loop over \<open>page.data\<close>: one \<open>retrieve\<close> per file, then the filter on \<open>user_id\<close>.\<close>

fun list_loop ::
  "remote \<Rightarrow> string \<Rightarrow> string option \<Rightarrow> string list \<Rightarrow> event list \<Rightarrow> jv list \<Rightarrow> event list \<times> (exn + jv list)" where
  "list_loop rm vector_store_id user_id [] h items = (h, Inr items)"
| "list_loop rm vector_store_id user_id (f # fs) h items =
     (case files_retrieve rm h vector_store_id f of
        Inl e \<Rightarrow> (h @ [(CRetrieve vector_store_id f, Raised)], Inl e)
      | Inr detail \<Rightarrow>
          (let attrs = attrs_of detail
           in if truthy user_id \<and> map_of attrs ''user_id'' \<noteq> map_option JStr user_id
              then list_loop rm vector_store_id user_id fs (h @ [(CRetrieve vector_store_id f, Returned)]) items
              else list_loop rm vector_store_id user_id fs (h @ [(CRetrieve vector_store_id f, Returned)])
                     (items @ [list_item detail attrs])))"

definition list_body :: "remote \<Rightarrow> list_args \<Rightarrow> string \<Rightarrow> world \<Rightarrow> world \<times> (exn + jv)" where
  "list_body rm a vector_store_id w =
     (let limit = max 1 (min (dflt 20 (la_limit a)) 100);
          status_filter = dflt (Some ''completed'') (la_status_filter a)
      in case files_list rm (history w) vector_store_id limit status_filter of
           Inl e \<Rightarrow> (w\<lparr>history := history w @ [(CListFiles vector_store_id limit status_filter, Raised)]\<rparr>, Inl e)
         | Inr page \<Rightarrow>
             (case list_loop rm vector_store_id (la_user_id a) (fp_data page)
                     (history w @ [(CListFiles vector_store_id limit status_filter, Returned)]) [] of
                (h, Inl e) \<Rightarrow> (w\<lparr>history := h\<rparr>, Inl e)
              | (h, Inr items) \<Rightarrow>
                  (w\<lparr>history := h\<rparr>,
                   Inr (JDict
                     [(''status'', JStr ''ok''),
                      (''vector_store_id'', JStr vector_store_id),
                      (''count'', JInt (int (length items))),
                      (''items'', JList items),
                      (''has_more'', JBool (dflt False (fp_has_more page))),
                      (''last_id'', opt_str (fp_last_id page))]))))"

definition list_memories ::
  "config \<Rightarrow> remote \<Rightarrow> list_args \<Rightarrow> world \<Rightarrow> (world \<times> (exn + jv)) option" where
  "list_memories cfg rm a w =
     (case get_or_create_vector_store_id cfg rm w of
        None \<Rightarrow> None
      | Some (w1, Inl e) \<Rightarrow> Some (w1, Inl e)
      | Some (w1, Inr vector_store_id) \<Rightarrow> Some (list_body rm a vector_store_id w1))"

subsection \<open>\<open>get_memory_content\<close>\<close>

text \<open>
  The list comprehension over the chunks: \<open>c.get("text")\<close> of every chunk whose
  \<open>c.get("type")\<close> is \<open>"text"\<close>; the first chunk without a \<open>get\<close> method raises.
\<close>

fun chunk_get_texts :: "content_chunk list \<Rightarrow> exn + string option list" where
  "chunk_get_texts [] = Inr []"
| "chunk_get_texts (ChunkNoGet m # cs) = Inl (AttributeError m)"
| "chunk_get_texts (ChunkDict ty tx # cs) =
     (case chunk_get_texts cs of
        Inl e \<Rightarrow> Inl e
      | Inr texts \<Rightarrow> Inr (if ty = Some ''text'' then tx # texts else texts))"

text \<open>
  \<open>content_obj.get("content", [])\<close>, the comprehension, and \<open>[t for t in texts if t]\<close>: the
  texts, or the exception that reading the object raises.
\<close>

definition content_texts :: "content_obj \<Rightarrow> exn + string list" where
  "content_texts content_obj =
     (case content_obj of
        ObjNoGet m \<Rightarrow> Inl (AttributeError m)
      | ObjDict ContentAbsent \<Rightarrow> Inr []
      | ObjDict (ContentNotIterable m) \<Rightarrow> Inl (TypeError m)
      | ObjDict (ContentItems cs) \<Rightarrow>
          (case chunk_get_texts cs of
             Inl e \<Rightarrow> Inl e
           | Inr texts \<Rightarrow>
               Inr (concat (map (\<lambda>t. case t of None \<Rightarrow> [] | Some x \<Rightarrow> if x \<noteq> [] then [x] else []) texts))))"

text \<open>
  What the \<open>try\<close> block of \<open>get_memory_content\<close> returns: from its body when nothing
  raised, from \<open>except AttributeError\<close>, or from \<open>except Exception\<close>.
\<close>

definition content_result :: "string \<Rightarrow> string \<Rightarrow> (string \<times> jv) list \<Rightarrow> exn + string list \<Rightarrow> jv" where
  "content_result vector_store_id file_id attrs r =
     (case r of
        Inr texts \<Rightarrow>
          JDict [(''status'', JStr ''ok''),
                 (''vector_store_id'', JStr vector_store_id),
                 (''file_id'', JStr file_id),
                 (''attributes'', JDict attrs),
                 (''content_texts'', JList (map JStr texts))]
      | Inl (AttributeError m) \<Rightarrow>
          JDict [(''status'', JStr ''error''),
                 (''error'', JStr msg_no_content),
                 (''vector_store_id'', JStr vector_store_id),
                 (''file_id'', JStr file_id),
                 (''attributes'', JDict attrs)]
      | Inl e \<Rightarrow>
          JDict [(''status'', JStr ''error''),
                 (''error'', JStr (exn_str e)),
                 (''vector_store_id'', JStr vector_store_id),
                 (''file_id'', JStr file_id)])"

text \<open>
  \<open>get_memory_content\<close> after the resolver: the retrieve is outside the \<open>try\<close> block, the
  content call and the reading of what it returns are inside.
\<close>

definition get_content_body :: "remote \<Rightarrow> string \<Rightarrow> string \<Rightarrow> world \<Rightarrow> world \<times> (exn + jv)" where
  "get_content_body rm file_id vector_store_id w =
     (case files_retrieve rm (history w) vector_store_id file_id of
        Inl e \<Rightarrow> (w\<lparr>history := history w @ [(CRetrieve vector_store_id file_id, Raised)]\<rparr>, Inl e)
      | Inr detail \<Rightarrow>
          (let attrs = attrs_of detail;
               h1 = history w @ [(CRetrieve vector_store_id file_id, Returned)]
           in case files_content rm h1 vector_store_id file_id of
                Inl e \<Rightarrow>
                  (w\<lparr>history := h1 @ [(CContent vector_store_id file_id, Raised)]\<rparr>,
                   Inr (content_result vector_store_id file_id attrs (Inl e)))
              | Inr content_obj \<Rightarrow>
                  (w\<lparr>history := h1 @ [(CContent vector_store_id file_id, Returned)]\<rparr>,
                   Inr (content_result vector_store_id file_id attrs (content_texts content_obj)))))"

definition get_memory_content ::
  "config \<Rightarrow> remote \<Rightarrow> string \<Rightarrow> world \<Rightarrow> (world \<times> (exn + jv)) option" where
  "get_memory_content cfg rm file_id w =
     (case get_or_create_vector_store_id cfg rm w of
        None \<Rightarrow> None
      | Some (w1, Inl e) \<Rightarrow> Some (w1, Inl e)
      | Some (w1, Inr vector_store_id) \<Rightarrow> Some (get_content_body rm file_id vector_store_id w1))"

subsection \<open>\<open>delete_memory\<close>\<close>

definition delete_body :: "remote \<Rightarrow> string \<Rightarrow> string \<Rightarrow> world \<Rightarrow> world \<times> (exn + jv)" where
  "delete_body rm file_id vector_store_id w =
     (case files_delete rm (history w) vector_store_id file_id of
        Inr deleted \<Rightarrow>
          (w\<lparr>history := history w @ [(CDelete vector_store_id file_id, Returned)]\<rparr>,
           Inr (JDict
             [(''status'', JStr ''ok''),
              (''vector_store_id'', JStr vector_store_id),
              (''file_id'', JStr file_id),
              (''deleted'', JBool (dflt True (do_deleted deleted)))]))
      | Inl e \<Rightarrow>
          (w\<lparr>history := history w @ [(CDelete vector_store_id file_id, Raised)]\<rparr>,
           Inr (JDict
             [(''status'', JStr ''error''),
              (''error'', JStr (exn_str e)),
              (''vector_store_id'', JStr vector_store_id),
              (''file_id'', JStr file_id)])))"

definition delete_memory ::
  "config \<Rightarrow> remote \<Rightarrow> string \<Rightarrow> world \<Rightarrow> (world \<times> (exn + jv)) option" where
  "delete_memory cfg rm file_id w =
     (case get_or_create_vector_store_id cfg rm w of
        None \<Rightarrow> None
      | Some (w1, Inl e) \<Rightarrow> Some (w1, Inl e)
      | Some (w1, Inr vector_store_id) \<Rightarrow> Some (delete_body rm file_id vector_store_id w1))"


section \<open>Notions the properties are stated with\<close>

text \<open>The remote calls made between the world \<open>w\<close> and the later world \<open>w'\<close>.\<close>

definition events_since :: "world \<Rightarrow> world \<Rightarrow> event list" where
  "events_since w w' = drop (length (history w)) (history w')"

definition calls_since :: "world \<Rightarrow> world \<Rightarrow> call list" where
  "calls_since w w' = map fst (events_since w w')"

definition dict_get :: "jv \<Rightarrow> string \<Rightarrow> jv option" where
  "dict_get d k = (case d of JDict items \<Rightarrow> map_of items k | _ \<Rightarrow> None)"





text \<open>A run of \<open>n\<close> calls of the resolver: what each returned and the world it left.\<close>

fun resolve_seq :: "config \<Rightarrow> remote \<Rightarrow> nat \<Rightarrow> world \<Rightarrow> ((exn + string) \<times> world) list option" where
  "resolve_seq cfg rm 0 w = Some []"
| "resolve_seq cfg rm (Suc n) w =
     (case get_or_create_vector_store_id cfg rm w of
        None \<Rightarrow> None
      | Some (w1, r) \<Rightarrow>
          (case resolve_seq cfg rm n w1 of
             None \<Rightarrow> None
           | Some rs \<Rightarrow> Some ((r, w1) # rs)))"

fun is_create_call :: "event \<Rightarrow> bool" where
  "is_create_call (CCreateStore name, out) = True"
| "is_create_call e = False"

fun is_created :: "event \<Rightarrow> bool" where
  "is_created (CCreateStore name, Returned) = True"
| "is_created e = False"

text \<open>The remote service never hands out an empty identifier for a collection.\<close>

definition ids_nonempty :: "remote \<Rightarrow> bool" where
  "ids_nonempty rm =
     ((\<forall>h after page st. vector_stores_list rm h after = Inr page \<longrightarrow> st \<in> set (sp_data page) \<longrightarrow> store_id st \<noteq> []) \<and>
      (\<forall>h name st. vector_stores_create rm h name = Inr st \<longrightarrow> store_id st \<noteq> []))"

text \<open>Whether \<open>w\<close> occurs in \<open>s\<close> as a substring.\<close>

fun contains :: "string \<Rightarrow> string \<Rightarrow> bool" where
  "contains [] w = (w = [])"
| "contains (c # cs) w = (prefix w (c # cs) \<or> contains cs w)"

text \<open>Whether a remote call made between \<open>w\<close> and \<open>w'\<close> raised.\<close>

definition any_raised :: "world \<Rightarrow> world \<Rightarrow> bool" where
  "any_raised w w' = list_ex (\<lambda>e. snd e = Raised) (events_since w w')"

text \<open>
  What the resolver keeps true of the world: at most one creation has returned, and none
  while the cache is unset.
\<close>

definition resolver_inv :: "world \<Rightarrow> bool" where
  "resolver_inv w = (length (filter is_created (history w)) \<le> 1 \<and>
     (\<not> truthy (vector_store_id_cache w) \<longrightarrow> filter is_created (history w) = []))"

section \<open>Sample configurations and remote services\<close>

definition cfg0 :: config where
  "cfg0 = \<lparr>VECTOR_STORE_NAME = ''MEMORIES_STORE'', VECTOR_STORE_ID_ENV = None,
           MAX_MEMORY_CHARS = 8000, REDACT_SECRETS_DEFAULT = True\<rparr>"

definition ev0 :: env where
  "ev0 = \<lparr>sha256_text = (\<lambda>s. Inr ''00''), time_time = 0, utc_now_iso = ''2026-01-01T00:00:00+00:00''\<rparr>"

text \<open>A service on which every call succeeds; the collection exists as \<open>vs_1\<close>.\<close>

definition rm_ok :: remote where
  "rm_ok = \<lparr>
     vector_stores_list = (\<lambda>h after. Inr \<lparr>sp_data = [\<lparr>store_id = ''vs_1'', store_name = Some ''MEMORIES_STORE''\<rparr>],
                                           sp_has_more = Some False, sp_last_id = None\<rparr>),
     vector_stores_create = (\<lambda>h name. Inr \<lparr>store_id = ''vs_2'', store_name = Some name\<rparr>),
     files_upload_and_poll = (\<lambda>h v t f. Inr ''file_1''),
     files_update = (\<lambda>h v f a. Inr ()),
     vector_stores_search = (\<lambda>h p v q m r f. Inr \<lparr>sr_data = [], sr_search_query = None, sr_has_more = None\<rparr>),
     files_list = (\<lambda>h v l s. Inr \<lparr>fp_data = [''file_1'', ''file_2''], fp_has_more = Some True,
                                    fp_last_id = Some ''file_2''\<rparr>),
     files_retrieve = (\<lambda>h v f. Inr \<lparr>fd_id = f, fd_created_at = Some 1, fd_status = Some ''completed'',
                                        fd_attributes = Some [(''user_id'', JStr ''u1'')]\<rparr>),
     files_content = (\<lambda>h v f. Inr (ObjDict (ContentItems [ChunkDict (Some ''text'') (Some ''hello'')]))),
     files_delete = (\<lambda>h v f. Inr \<lparr>do_deleted = Some True\<rparr>)\<rparr>"

text \<open>The attribute update fails after the upload has returned \<open>file_1\<close>.\<close>

definition rm_update_fails :: remote where
  "rm_update_fails = rm_ok\<lparr>files_update := (\<lambda>h v f a. Inl (OtherError ''boom''))\<rparr>"

text \<open>The listing of collections fails.\<close>

definition rm_down :: remote where
  "rm_down = rm_ok\<lparr>vector_stores_list := (\<lambda>h after. Inl (OtherError ''down''))\<rparr>"

text \<open>The search does not know the keyword \<open>filters\<close>.\<close>

definition rm_old_sdk :: remote where
  "rm_old_sdk = rm_ok\<lparr>vector_stores_search := (\<lambda>h p v q m r f.
     case p of Filters \<Rightarrow> Inl (TypeError ''unexpected keyword argument'')
             | AttributeFilter \<Rightarrow> Inr \<lparr>sr_data = [], sr_search_query = None, sr_has_more = None\<rparr>)\<rparr>"

text \<open>No collection exists, and the first creation fails.\<close>

definition rm_create_fails_once :: remote where
  "rm_create_fails_once = rm_ok\<lparr>
     vector_stores_list := (\<lambda>h after. Inr \<lparr>sp_data = [], sp_has_more = Some False, sp_last_id = None\<rparr>),
     vector_stores_create := (\<lambda>h name.
        if filter is_create_call h = [] then Inl (OtherError ''timeout'')
        else Inr \<lparr>store_id = ''vs_2'', store_name = Some name\<rparr>)\<rparr>"

text \<open>The upload fails.\<close>

definition rm_upload_fails :: remote where
  "rm_upload_fails = rm_ok\<lparr>files_upload_and_poll := (\<lambda>h v t f. Inl (OtherError ''boom''))\<rparr>"

text \<open>The content call returns an object that has no \<open>get\<close> method.\<close>

definition rm_content_no_get :: remote where
  "rm_content_no_get = rm_ok\<lparr>files_content := (\<lambda>h v f. Inr (ObjNoGet ''object has no attribute get''))\<rparr>"


definition w_cached :: world where
  "w_cached = \<lparr>vector_store_id_cache = Some ''vs_1'', history = []\<rparr>"

definition w_fresh :: world where
  "w_fresh = \<lparr>vector_store_id_cache = None, history = []\<rparr>"

definition save_hello :: save_args where
  "save_hello = \<lparr>sa_memory = ''hello'', sa_user_id = None, sa_session_id = None, sa_memory_type = None,
                 sa_tags = None, sa_redact_secrets = Some False\<rparr>"

definition search_dark :: search_args where
  "search_dark = \<lparr>sq_query = ''dark mode'', sq_user_id = None, sq_session_id = None, sq_memory_type = None,
                  sq_tags = None, sq_max_results = None, sq_rewrite_query = None, sq_return_full_items = None\<rparr>"

definition list_u2 :: list_args where
  "list_u2 = \<lparr>la_user_id = Some ''u2'', la_limit = None, la_status_filter = None\<rparr>"



section \<open>Attribute filter builder: properties\<close>




section \<open>Validation\<close>

text \<open>
  Claim C8. A save whose memory is empty after trimming, or longer than the configured
  ceiling, and a search whose query is empty after trimming, return the validation error
  and leave the world as it was: the cache is untouched and no remote call is made.
\<close>

theorem validation_fails_fast:
  "(strip (sa_memory a) = [] \<longrightarrow>
      save_memory cfg ev rm a w = Some (w, Inr (error_result msg_memory_empty))) \<and>
   (strip (sa_memory a) \<noteq> [] \<and> int (length (sa_memory a)) > MAX_MEMORY_CHARS cfg \<longrightarrow>
      save_memory cfg ev rm a w = Some (w, Inr (error_result (msg_memory_too_long cfg)))) \<and>
   (strip (sq_query q) = [] \<longrightarrow>
      search_memory cfg rm q w = Some (w, Inr (error_result msg_query_empty)))"
  by (simp add: save_memory_def search_memory_def Let_def)

theorem validation_fails_fast_witness:
  "strip (sa_memory (save_hello\<lparr>sa_memory := ''   ''\<rparr>)) = [] \<and>
   save_memory cfg0 ev0 rm_ok (save_hello\<lparr>sa_memory := ''   ''\<rparr>) w_fresh
     = Some (w_fresh, Inr (error_result msg_memory_empty)) \<and>
   strip (sa_memory save_hello) \<noteq> [] \<and>
   int (length (sa_memory save_hello)) > MAX_MEMORY_CHARS (cfg0\<lparr>MAX_MEMORY_CHARS := 3\<rparr>) \<and>
   save_memory (cfg0\<lparr>MAX_MEMORY_CHARS := 3\<rparr>) ev0 rm_ok save_hello w_fresh
     = Some (w_fresh, Inr (error_result (msg_memory_too_long (cfg0\<lparr>MAX_MEMORY_CHARS := 3\<rparr>)))) \<and>
   strip (sq_query (search_dark\<lparr>sq_query := ''   ''\<rparr>)) = [] \<and>
   search_memory cfg0 rm_ok (search_dark\<lparr>sq_query := ''   ''\<rparr>) w_fresh
     = Some (w_fresh, Inr (error_result msg_query_empty))"
  using validation_fails_fast[of "save_hello\<lparr>sa_memory := ''   ''\<rparr>" cfg0 ev0 rm_ok w_fresh
          "search_dark\<lparr>sq_query := ''   ''\<rparr>"]
        validation_fails_fast[of save_hello "cfg0\<lparr>MAX_MEMORY_CHARS := 3\<rparr>" ev0 rm_ok w_fresh]
  by (simp add: strip_def is_space_def cfg0_def save_hello_def search_dark_def)

section \<open>Semantic search\<close>

lemma search_call_cases:
  "search_call rm v q m r f w =
    (let c1 = CSearch Filters v q m r f; c2 = CSearch AttributeFilter v q m r f in
     case vector_stores_search rm (history w) Filters v q m r f of
       Inr res \<Rightarrow> (w\<lparr>history := history w @ [(c1, Returned)]\<rparr>, Inr res)
     | Inl e \<Rightarrow> (case e of
          TypeError x \<Rightarrow> (case vector_stores_search rm (history w @ [(c1, Raised)]) AttributeFilter v q m r f of
               Inr res \<Rightarrow> (w\<lparr>history := history w @ [(c1, Raised), (c2, Returned)]\<rparr>, Inr res)
             | Inl e' \<Rightarrow> (w\<lparr>history := history w @ [(c1, Raised), (c2, Raised)]\<rparr>, Inl e'))
        | _ \<Rightarrow> (w\<lparr>history := history w @ [(c1, Raised)]\<rparr>, Inl e)))"
  by (simp add: search_call_def Let_def split: sum.splits exn.splits)

lemma search_memory_resolved:
  assumes "strip (sq_query a) \<noteq> []"
    and "get_or_create_vector_store_id cfg rm w = Some (w1, Inr v)"
  shows "search_memory cfg rm a w =
     (case search_call rm v (sq_query a) (max 1 (min (dflt 8 (sq_max_results a)) 50))
             (dflt True (sq_rewrite_query a))
             (build_attribute_filter (Some (dflt ''default'' (sq_user_id a))) (sq_session_id a) (sq_tags a)
                (sq_memory_type a)) w1 of
        (w2, Inl e) \<Rightarrow> Some (w2, Inl e)
      | (w2, Inr results) \<Rightarrow>
          Some (w2, Inr (shape_results v (sq_query a) (dflt False (sq_return_full_items a)) results)))"
  using assms by (simp add: search_memory_def Let_def)

lemma search_memory_calls:
  assumes "strip (sq_query a) \<noteq> []"
    and "get_or_create_vector_store_id cfg rm w = Some (w1, Inr v)"
  shows "\<exists>w2 res. search_memory cfg rm a w = Some (w2, res) \<and>
     (let q = sq_query a;
          m = max 1 (min (dflt 8 (sq_max_results a)) 50);
          r = dflt True (sq_rewrite_query a);
          f = build_attribute_filter (Some (dflt ''default'' (sq_user_id a))) (sq_session_id a) (sq_tags a)
                   (sq_memory_type a)
      in calls_since w1 w2 = [CSearch Filters v q m r f] \<or>
         calls_since w1 w2 = [CSearch Filters v q m r f, CSearch AttributeFilter v q m r f])"
  unfolding search_memory_resolved[OF assms] search_call_cases Let_def
  by (simp add: calls_since_def events_since_def split: sum.splits exn.splits)

lemma build_default_only:
  "build_attribute_filter (Some ''default'') None None None =
     Some (JDict [(''type'', JStr ''eq''), (''key'', JStr ''user_id''), (''value'', JStr ''default'')])"
  by (simp add: build_attribute_filter_def eq_leaf_def)

lemma build_None_user:
  "build_attribute_filter (Some u) s g t = None \<Longrightarrow> u = []"
  by (cases s; cases g; cases t) (simp_all add: build_attribute_filter_def Let_def split: if_splits)

lemma strip_dark: "strip (sq_query search_dark) \<noteq> []"
  by (simp add: search_dark_def strip_def is_space_def)

lemma resolve_cached:
  "vector_store_id_cache w = Some c \<Longrightarrow> c \<noteq> [] \<Longrightarrow> get_or_create_vector_store_id cfg rm w = Some (w, Inr c)"
  by (simp add: get_or_create_vector_store_id_def truthy_def)

lemma resolve_w_cached: "get_or_create_vector_store_id cfg rm w_cached = Some (w_cached, Inr ''vs_1'')"
  by (rule resolve_cached) (simp_all add: w_cached_def)

text \<open>
  Claim C9. In a search that reaches the remote call, the second attempt, under the
  keyword \<open>attribute_filter\<close>, is made if and only if the first, under \<open>filters\<close>, raised a
  \<open>TypeError\<close>; any other exception of the first attempt leaves the tool as it is, with
  no second attempt.
\<close>

theorem search_fallback_only_on_type_error:
  assumes "strip (sq_query a) \<noteq> []"
    and "get_or_create_vector_store_id cfg rm w = Some (w1, Inr v)"
  shows "let q = sq_query a;
             m = max 1 (min (dflt 8 (sq_max_results a)) 50);
             r = dflt True (sq_rewrite_query a);
             f = build_attribute_filter (Some (dflt ''default'' (sq_user_id a))) (sq_session_id a) (sq_tags a)
                   (sq_memory_type a);
             primary = vector_stores_search rm (history w1) Filters v q m r f
         in \<exists>w2 res. search_memory cfg rm a w = Some (w2, res) \<and>
              (calls_since w1 w2 = [CSearch Filters v q m r f, CSearch AttributeFilter v q m r f]
                 \<longleftrightarrow> (\<exists>x. primary = Inl (TypeError x))) \<and>
              (calls_since w1 w2 = [CSearch Filters v q m r f] \<longleftrightarrow> (\<forall>x. primary \<noteq> Inl (TypeError x))) \<and>
              (\<forall>e. primary = Inl e \<and> (\<forall>x. e \<noteq> TypeError x) \<longrightarrow>
                   res = Inl e \<and> events_since w1 w2 = [(CSearch Filters v q m r f, Raised)])"
  unfolding search_memory_resolved[OF assms] search_call_cases Let_def
  by (auto simp: calls_since_def events_since_def split: sum.splits exn.splits)

theorem search_fallback_witness:
  "strip (sq_query search_dark) \<noteq> [] \<and>
   get_or_create_vector_store_id cfg0 rm_old_sdk w_cached = Some (w_cached, Inr ''vs_1'') \<and>
   search_memory cfg0 rm_old_sdk search_dark w_cached =
     Some (\<lparr>vector_store_id_cache = Some ''vs_1'',
            history = [(CSearch Filters ''vs_1'' ''dark mode'' 8 True (Some (eq_leaf ''user_id'' ''default'')), Raised),
                       (CSearch AttributeFilter ''vs_1'' ''dark mode'' 8 True (Some (eq_leaf ''user_id'' ''default'')), Returned)]\<rparr>,
           Inr (JDict [(''status'', JStr ''ok''), (''vector_store_id'', JStr ''vs_1''),
                       (''search_query'', JStr ''dark mode''), (''results'', JList []),
                       (''has_more'', JBool False)]))"
  using search_fallback_only_on_type_error[OF strip_dark resolve_w_cached, where cfg = cfg0 and rm = rm_old_sdk]
    strip_dark resolve_w_cached[where cfg = cfg0 and rm = rm_old_sdk]
  by (simp add: search_memory_def search_call_def Let_def search_dark_def rm_old_sdk_def rm_ok_def
        w_cached_def dflt_def build_attribute_filter_def shape_results_def)

text \<open>
  Claim C10. A search called without user_id and without any other filter argument
  passes to the remote search the equality leaf on user_id with the value "default",
  not null; and whatever the arguments, a remote search receives a null filter only when
  the caller passed the empty string as user_id.
\<close>

theorem search_default_user_filter:
  assumes "strip (sq_query a) \<noteq> []"
    and "get_or_create_vector_store_id cfg rm w = Some (w1, Inr v)"
  shows "\<exists>w2 res. search_memory cfg rm a w = Some (w2, res) \<and> calls_since w1 w2 \<noteq> [] \<and>
           (sq_user_id a = None \<and> sq_session_id a = None \<and> sq_memory_type a = None \<and> sq_tags a = None \<longrightarrow>
              (\<forall>c \<in> set (calls_since w1 w2). \<exists>p q m r.
                  c = CSearch p v q m r (Some (JDict [(''type'', JStr ''eq''), (''key'', JStr ''user_id''),
                                                      (''value'', JStr ''default'')])))) \<and>
           (\<forall>p q m r. CSearch p v q m r None \<in> set (calls_since w1 w2) \<longrightarrow> sq_user_id a = Some [])"
proof -
  let ?f = "build_attribute_filter (Some (dflt ''default'' (sq_user_id a))) (sq_session_id a) (sq_tags a)
                   (sq_memory_type a)"
  from search_memory_calls[OF assms] obtain w2 res q m r where
    sm: "search_memory cfg rm a w = Some (w2, res)" and
    cs: "calls_since w1 w2 = [CSearch Filters v q m r ?f] \<or>
         calls_since w1 w2 = [CSearch Filters v q m r ?f, CSearch AttributeFilter v q m r ?f]"
    unfolding Let_def by blast
  have ne: "calls_since w1 w2 \<noteq> []" using cs by auto
  have d: "sq_user_id a = None \<and> sq_session_id a = None \<and> sq_memory_type a = None \<and> sq_tags a = None \<longrightarrow>
      (\<forall>c \<in> set (calls_since w1 w2). \<exists>p q m r.
                  c = CSearch p v q m r (Some (JDict [(''type'', JStr ''eq''), (''key'', JStr ''user_id''),
                                                      (''value'', JStr ''default'')])))"
  proof
    assume h: "sq_user_id a = None \<and> sq_session_id a = None \<and> sq_memory_type a = None \<and> sq_tags a = None"
    then have "?f = Some (JDict [(''type'', JStr ''eq''), (''key'', JStr ''user_id''), (''value'', JStr ''default'')])"
      by (simp add: dflt_def build_default_only)
    with cs show "\<forall>c \<in> set (calls_since w1 w2). \<exists>p q m r.
                  c = CSearch p v q m r (Some (JDict [(''type'', JStr ''eq''), (''key'', JStr ''user_id''),
                                                      (''value'', JStr ''default'')]))"
      by auto
  qed
  have e: "\<forall>p q m r. CSearch p v q m r None \<in> set (calls_since w1 w2) \<longrightarrow> sq_user_id a = Some []"
  proof (intro allI impI)
    fix p q' m' r' assume "CSearch p v q' m' r' None \<in> set (calls_since w1 w2)"
    with cs have "?f = None" by auto
    then have "dflt ''default'' (sq_user_id a) = []" by (rule build_None_user)
    then show "sq_user_id a = Some []" by (cases "sq_user_id a") (simp_all add: dflt_def)
  qed
  from sm ne d e show ?thesis by blast
qed

theorem search_default_user_filter_witness:
  "strip (sq_query search_dark) \<noteq> [] \<and>
   get_or_create_vector_store_id cfg0 rm_ok w_cached = Some (w_cached, Inr ''vs_1'') \<and>
   sq_user_id search_dark = None \<and> sq_session_id search_dark = None \<and>
   sq_memory_type search_dark = None \<and> sq_tags search_dark = None \<and>
   (\<exists>w2 res. search_memory cfg0 rm_ok search_dark w_cached = Some (w2, res) \<and>
      calls_since w_cached w2 =
        [CSearch Filters ''vs_1'' ''dark mode'' 8 True
           (Some (JDict [(''type'', JStr ''eq''), (''key'', JStr ''user_id''), (''value'', JStr ''default'')]))])"
  using search_default_user_filter[OF strip_dark resolve_w_cached, where cfg = cfg0 and rm = rm_ok]
    strip_dark resolve_w_cached[where cfg = cfg0 and rm = rm_ok]
  by (simp add: search_memory_def search_call_def Let_def search_dark_def rm_ok_def
        w_cached_def dflt_def build_attribute_filter_def shape_results_def calls_since_def events_since_def eq_leaf_def)


section \<open>Collection resolver: properties\<close>

lemma find_store_loop_props:
  assumes "find_store_loop rm name h after = Some y"
  shows "(\<exists>evs. fst y = h @ evs \<and> filter is_create_call evs = []) \<and>
     (ids_nonempty rm \<longrightarrow> (\<forall>sid. snd y = Inr (Some sid) \<longrightarrow> sid \<noteq> []))"
proof (rule find_store_loop.raw_induct[where P = "\<lambda>rm name h after y.
     (\<exists>evs. fst y = h @ evs \<and> filter is_create_call evs = []) \<and>
     (ids_nonempty rm \<longrightarrow> (\<forall>sid. snd y = Inr (Some sid) \<longrightarrow> sid \<noteq> []))", OF _ assms])
  fix f :: "remote \<Rightarrow> string \<Rightarrow> event list \<Rightarrow> string option \<Rightarrow> (event list \<times> (exn + string option)) option"
    and rm name h after y
  assume IH: "\<And>rm name h after y. f rm name h after = Some y \<Longrightarrow>
     (\<exists>evs. fst y = h @ evs \<and> filter is_create_call evs = []) \<and>
     (ids_nonempty rm \<longrightarrow> (\<forall>sid. snd y = Inr (Some sid) \<longrightarrow> sid \<noteq> []))"
  assume eq: "(case vector_stores_list rm h after of
        Inl e \<Rightarrow> Some (h @ [(CListStores after, Raised)], Inl e)
      | Inr page \<Rightarrow>
          (case find (\<lambda>st. store_name st = Some name) (sp_data page) of
             None \<Rightarrow>
               if \<not> (case sp_has_more page of None \<Rightarrow> False | Some b \<Rightarrow> b)
               then Some (h @ [(CListStores after, Returned)], Inr None)
               else if \<not> truthy (sp_last_id page)
               then Some (h @ [(CListStores after, Returned)], Inr None)
               else f rm name (h @ [(CListStores after, Returned)]) (sp_last_id page)
           | Some st \<Rightarrow> Some (h @ [(CListStores after, Returned)], Inr (Some (store_id st))))) = Some y"
  show "(\<exists>evs. fst y = h @ evs \<and> filter is_create_call evs = []) \<and>
     (ids_nonempty rm \<longrightarrow> (\<forall>sid. snd y = Inr (Some sid) \<longrightarrow> sid \<noteq> []))"
  proof (cases "vector_stores_list rm h after")
    case (Inl e)
    with eq show ?thesis by auto
  next
    case (Inr page)
    show ?thesis
    proof (cases "find (\<lambda>st. store_name st = Some name) (sp_data page)")
      case (Some st)
      then have "st \<in> set (sp_data page)" by (auto simp: find_Some_iff)
      with Inr Some eq show ?thesis by (auto simp: ids_nonempty_def)
    next
      case None
      show ?thesis
      proof (cases "\<not> (case sp_has_more page of None \<Rightarrow> False | Some b \<Rightarrow> b) \<or> \<not> truthy (sp_last_id page)")
        case True
        with Inr None eq show ?thesis by (auto split: if_splits)
      next
        case False
        with Inr None eq have "f rm name (h @ [(CListStores after, Returned)]) (sp_last_id page) = Some y"
          by (auto split: if_splits)
        from IH[OF this] show ?thesis by auto
      qed
    qed
  qed
qed

lemma loop_rm_create_fails_once:
  "find_store_loop rm_create_fails_once name h after = Some (h @ [(CListStores after, Returned)], Inr None)"
  by (subst find_store_loop.simps) (simp add: rm_create_fails_once_def rm_ok_def)

lemma loop_rm_ok:
  "find_store_loop rm_ok ''MEMORIES_STORE'' h after = Some (h @ [(CListStores after, Returned)], Inr (Some ''vs_1''))"
  by (subst find_store_loop.simps) (simp add: rm_ok_def)

lemma loop_rm_down:
  "find_store_loop rm_down name h after = Some (h @ [(CListStores after, Raised)], Inl (OtherError ''down''))"
  by (subst find_store_loop.simps) (simp add: rm_down_def rm_ok_def)

lemma create_rm_create_fails_once:
  "vector_stores_create rm_create_fails_once h name =
     (if filter is_create_call h = [] then Inl (OtherError ''timeout'')
      else Inr \<lparr>store_id = ''vs_2'', store_name = Some name\<rparr>)"
  by (simp add: rm_create_fails_once_def rm_ok_def)

lemma is_created_imp_call: "is_created e \<Longrightarrow> is_create_call e"
  by (cases e rule: is_created.cases) simp_all

lemma no_calls_no_created: "filter is_create_call evs = [] \<Longrightarrow> filter is_created evs = []"
  by (auto simp: filter_empty_conv dest: is_created_imp_call)

lemma resolve_slow_props:
  assumes "get_or_create_slow cfg rm w = Some (w', r)"
  shows "\<exists>evs. history w' = history w @ evs \<and> length (filter is_created evs) \<le> 1 \<and>
           (\<forall>e. r = Inl e \<longrightarrow> vector_store_id_cache w' = vector_store_id_cache w \<and> filter is_created evs = []) \<and>
           (\<forall>sid. r = Inr sid \<longrightarrow> vector_store_id_cache w' = Some sid \<and> (ids_nonempty rm \<longrightarrow> sid \<noteq> []))"
proof (cases "find_store_loop rm (VECTOR_STORE_NAME cfg) (history w) None")
  case None
  with assms show ?thesis by (simp add: get_or_create_slow_def)
next
  case (Some y)
  obtain h res where y: "y = (h, res)" by (cases y)
  from find_store_loop_props[OF Some] y obtain evs where
    evs: "h = history w @ evs" "filter is_create_call evs = []"
    and ne: "ids_nonempty rm \<longrightarrow> (\<forall>sid. res = Inr (Some sid) \<longrightarrow> sid \<noteq> [])"
    by auto
  have nc: "filter is_created evs = []" using evs(2) by (rule no_calls_no_created)
  show ?thesis
  proof (cases res)
    case (Inl e)
    with assms Some y evs nc show ?thesis by (auto simp: get_or_create_slow_def)
  next
    case (Inr found)
    show ?thesis
    proof (cases found)
      case (Some sid)
      with assms \<open>find_store_loop rm (VECTOR_STORE_NAME cfg) (history w) None = Some y\<close> y Inr evs nc ne
      show ?thesis by (auto simp: get_or_create_slow_def)
    next
      case None
      show ?thesis
      proof (cases "vector_stores_create rm h (VECTOR_STORE_NAME cfg)")
        case (Inl e)
        with assms \<open>find_store_loop rm (VECTOR_STORE_NAME cfg) (history w) None = Some y\<close> y Inr None evs nc
        show ?thesis by (auto simp: get_or_create_slow_def)
      next
        case (Inr created)
        then have "ids_nonempty rm \<longrightarrow> store_id created \<noteq> []" by (auto simp: ids_nonempty_def)
        with Inr assms \<open>find_store_loop rm (VECTOR_STORE_NAME cfg) (history w) None = Some y\<close> y
          \<open>res = Inr found\<close> None evs nc
        show ?thesis by (auto simp: get_or_create_slow_def)
      qed
    qed
  qed
qed

lemma resolve_step:
  assumes nz: "ids_nonempty rm" and inv: "resolver_inv w"
    and res: "get_or_create_vector_store_id cfg rm w = Some (w', r)"
  shows "resolver_inv w'"
    and "\<And>c. vector_store_id_cache w = Some c \<Longrightarrow> c \<noteq> [] \<Longrightarrow> w' = w \<and> r = Inr c"
    and "\<And>sid. r = Inr sid \<Longrightarrow> vector_store_id_cache w' = Some sid \<and> sid \<noteq> []"
proof -
  show c2: "\<And>c. vector_store_id_cache w = Some c \<Longrightarrow> c \<noteq> [] \<Longrightarrow> w' = w \<and> r = Inr c"
    using res by (simp add: get_or_create_vector_store_id_def truthy_def)
  show "resolver_inv w'"
  proof (cases "truthy (vector_store_id_cache w)")
    case True
    then obtain c where "vector_store_id_cache w = Some c" "c \<noteq> []"
      by (auto simp: truthy_def split: option.splits)
    from c2[OF this] inv show ?thesis by simp
  next
    case False
    with res have slow: "get_or_create_slow cfg rm w = Some (w', r)"
      by (simp add: get_or_create_vector_store_id_def)
    from resolve_slow_props[OF slow] obtain evs where
      h: "history w' = history w @ evs" and l: "length (filter is_created evs) \<le> 1"
      and e: "\<forall>e. r = Inl e \<longrightarrow> vector_store_id_cache w' = vector_store_id_cache w \<and> filter is_created evs = []"
      and s: "\<forall>sid. r = Inr sid \<longrightarrow> vector_store_id_cache w' = Some sid \<and> (ids_nonempty rm \<longrightarrow> sid \<noteq> [])"
      by blast
    from inv False have old: "filter is_created (history w) = []" by (simp add: resolver_inv_def)
    show ?thesis
    proof (cases r)
      case (Inl x)
      with e False h old show ?thesis by (simp add: resolver_inv_def)
    next
      case (Inr sid)
      with s nz have "truthy (vector_store_id_cache w')" by (simp add: truthy_def)
      with h l old show ?thesis by (simp add: resolver_inv_def)
    qed
  qed
  show "\<And>sid. r = Inr sid \<Longrightarrow> vector_store_id_cache w' = Some sid \<and> sid \<noteq> []"
  proof -
    fix sid assume r: "r = Inr sid"
    show "vector_store_id_cache w' = Some sid \<and> sid \<noteq> []"
    proof (cases "truthy (vector_store_id_cache w)")
      case True
      then obtain c where c: "vector_store_id_cache w = Some c" "c \<noteq> []"
        by (auto simp: truthy_def split: option.splits)
      from c2[OF this] r c show ?thesis by simp
    next
      case False
      with res have slow: "get_or_create_slow cfg rm w = Some (w', r)"
        by (simp add: get_or_create_vector_store_id_def)
      from resolve_slow_props[OF slow] r nz show ?thesis by auto
    qed
  qed
qed

lemma resolve_seq_cached:
  assumes "vector_store_id_cache w = Some c" "c \<noteq> []"
  shows "resolve_seq cfg rm n w = Some (replicate n (Inr c, w))"
  by (induction n) (simp_all add: resolve_cached[OF assms])

lemma resolve_seq_props:
  assumes nz: "ids_nonempty rm"
  shows "resolver_inv w \<Longrightarrow> resolve_seq cfg rm n w = Some rs \<Longrightarrow>
     (\<forall>x \<in> set rs. resolver_inv (snd x)) \<and>
     (\<forall>i j c. i < j \<and> j < length rs \<and> vector_store_id_cache (snd (rs ! i)) = Some c \<and> c \<noteq> []
          \<longrightarrow> rs ! j = (Inr c, snd (rs ! i))) \<and>
     (\<forall>i sid. i < length rs \<and> fst (rs ! i) = Inr sid \<longrightarrow> vector_store_id_cache (snd (rs ! i)) = Some sid \<and> sid \<noteq> [])"
proof (induction n arbitrary: w rs)
  case 0
  then show ?case by simp
next
  case (Suc n)
  from Suc.prems(2) obtain w1 r rs' where
    st: "get_or_create_vector_store_id cfg rm w = Some (w1, r)"
    and sq: "resolve_seq cfg rm n w1 = Some rs'" and rs: "rs = (r, w1) # rs'"
    by (auto split: option.splits prod.splits)
  note step = resolve_step[OF nz Suc.prems(1) st]
  note IH = Suc.IH[OF step(1) sq]
  have a: "\<forall>x \<in> set rs. resolver_inv (snd x)" using IH step(1) rs by auto
  have b: "\<forall>i j c. i < j \<and> j < length rs \<and> vector_store_id_cache (snd (rs ! i)) = Some c \<and> c \<noteq> []
          \<longrightarrow> rs ! j = (Inr c, snd (rs ! i))"
  proof (intro allI impI)
    fix i j c
    assume h: "i < j \<and> j < length rs \<and> vector_store_id_cache (snd (rs ! i)) = Some c \<and> c \<noteq> []"
    show "rs ! j = (Inr c, snd (rs ! i))"
    proof (cases i)
      case 0
      with h rs have c: "vector_store_id_cache w1 = Some c" "c \<noteq> []" by auto
      from resolve_seq_cached[OF c, of cfg rm n] sq have "rs' = replicate n (Inr c, w1)" by simp
      with h 0 rs show ?thesis by (cases j) auto
    next
      case (Suc i')
      with h obtain j' where j': "j = Suc j'" by (cases j) auto
      from h Suc j' rs have "i' < j' \<and> j' < length rs' \<and> vector_store_id_cache (snd (rs' ! i')) = Some c \<and> c \<noteq> []"
        by auto
      with IH have "rs' ! j' = (Inr c, snd (rs' ! i'))" by blast
      with Suc j' rs show ?thesis by simp
    qed
  qed
  have c: "\<forall>i sid. i < length rs \<and> fst (rs ! i) = Inr sid \<longrightarrow> vector_store_id_cache (snd (rs ! i)) = Some sid \<and> sid \<noteq> []"
  proof (intro allI impI)
    fix i sid assume h: "i < length rs \<and> fst (rs ! i) = Inr sid"
    show "vector_store_id_cache (snd (rs ! i)) = Some sid \<and> sid \<noteq> []"
    proof (cases i)
      case 0
      with h rs step(3) show ?thesis by auto
    next
      case (Suc i')
      with h rs have "i' < length rs' \<and> fst (rs' ! i') = Inr sid" by simp
      with IH have "vector_store_id_cache (snd (rs' ! i')) = Some sid \<and> sid \<noteq> []" by blast
      with Suc rs show ?thesis by simp
    qed
  qed
  show ?case by (rule conjI[OF a conjI[OF b c]])
qed

lemma initial_inv: "resolver_inv (initial_world cfg)"
  by (simp add: resolver_inv_def initial_world_def)

text \<open>
  Claim C3, as stated, fails: when the creation of the collection raises, the cache stays
  unset and the next call of the resolver lists and creates again, so two
  create-collection calls occur in one process.
\<close>

theorem resolver_create_twice_counterexample:
  "resolve_seq cfg0 rm_create_fails_once 2 (initial_world cfg0) =
     Some [(Inl (OtherError ''timeout''),
            \<lparr>vector_store_id_cache = None,
             history = [(CListStores None, Returned), (CCreateStore ''MEMORIES_STORE'', Raised)]\<rparr>),
           (Inr ''vs_2'',
            \<lparr>vector_store_id_cache = Some ''vs_2'',
             history = [(CListStores None, Returned), (CCreateStore ''MEMORIES_STORE'', Raised),
                        (CListStores None, Returned), (CCreateStore ''MEMORIES_STORE'', Returned)]\<rparr>)] \<and>
   length (filter is_create_call
             [(CListStores None, Returned), (CCreateStore ''MEMORIES_STORE'', Raised),
              (CListStores None, Returned), (CCreateStore ''MEMORIES_STORE'', Returned)]) = 2"
  by (simp add: numeral_2_eq_2 get_or_create_vector_store_id_def get_or_create_slow_def
       loop_rm_create_fails_once initial_world_def cfg0_def truthy_def create_rm_create_fails_once)


text \<open>
  Claim C3, amended. Provided the remote service hands out non-empty identifiers, over
  every run of calls of the resolver from the start of the process: at most one
  create-collection call returns; a cached identifier, once set, is never changed; and
  every call after a call that returned an identifier returns the same identifier and
  leaves the world as that call left it, so that it makes no remote call.
\<close>

theorem resolver_memoizes:
  assumes "ids_nonempty rm" and "resolve_seq cfg rm n (initial_world cfg) = Some rs"
  shows "(\<forall>i < length rs. length (filter is_created (history (snd (rs ! i)))) \<le> 1) \<and>
         (\<forall>i j c. i < j \<and> j < length rs \<and> vector_store_id_cache (snd (rs ! i)) = Some c \<and> c \<noteq> []
              \<longrightarrow> vector_store_id_cache (snd (rs ! j)) = Some c) \<and>
         (\<forall>i j sid. i < j \<and> j < length rs \<and> fst (rs ! i) = Inr sid
              \<longrightarrow> rs ! j = (Inr sid, snd (rs ! i)))"
proof -
  note p = resolve_seq_props[OF assms(1) initial_inv assms(2)]
  note p1 = conjunct1[OF p] and p2 = conjunct1[OF conjunct2[OF p]] and p3 = conjunct2[OF conjunct2[OF p]]
  have a: "\<forall>i < length rs. length (filter is_created (history (snd (rs ! i)))) \<le> 1"
  proof (intro allI impI)
    fix i assume "i < length rs"
    then have "rs ! i \<in> set rs" by simp
    with p1 have "resolver_inv (snd (rs ! i))" by blast
    then show "length (filter is_created (history (snd (rs ! i)))) \<le> 1" by (simp add: resolver_inv_def)
  qed
  have b: "\<forall>i j c. i < j \<and> j < length rs \<and> vector_store_id_cache (snd (rs ! i)) = Some c \<and> c \<noteq> []
              \<longrightarrow> vector_store_id_cache (snd (rs ! j)) = Some c"
  proof (intro allI impI)
    fix i j c assume h: "i < j \<and> j < length rs \<and> vector_store_id_cache (snd (rs ! i)) = Some c \<and> c \<noteq> []"
    with p2 have "rs ! j = (Inr c, snd (rs ! i))" by blast
    with h show "vector_store_id_cache (snd (rs ! j)) = Some c" by simp
  qed
  have c: "\<forall>i j sid. i < j \<and> j < length rs \<and> fst (rs ! i) = Inr sid \<longrightarrow> rs ! j = (Inr sid, snd (rs ! i))"
  proof (intro allI impI)
    fix i j sid assume h: "i < j \<and> j < length rs \<and> fst (rs ! i) = Inr sid"
    then have "i < length rs \<and> fst (rs ! i) = Inr sid" by simp
    with p3 have "vector_store_id_cache (snd (rs ! i)) = Some sid \<and> sid \<noteq> []" by blast
    with h have "i < j \<and> j < length rs \<and> vector_store_id_cache (snd (rs ! i)) = Some sid \<and> sid \<noteq> []" by simp
    with p2 show "rs ! j = (Inr sid, snd (rs ! i))" by blast
  qed
  show ?thesis by (rule conjI[OF a conjI[OF b c]])
qed

lemma ids_nonempty_rm_ok: "ids_nonempty rm_ok"
  by (simp add: ids_nonempty_def rm_ok_def)

lemma resolve_seq_rm_ok:
  "resolve_seq cfg0 rm_ok 3 (initial_world cfg0) =
     Some [(Inr ''vs_1'', \<lparr>vector_store_id_cache = Some ''vs_1'', history = [(CListStores None, Returned)]\<rparr>),
           (Inr ''vs_1'', \<lparr>vector_store_id_cache = Some ''vs_1'', history = [(CListStores None, Returned)]\<rparr>),
           (Inr ''vs_1'', \<lparr>vector_store_id_cache = Some ''vs_1'', history = [(CListStores None, Returned)]\<rparr>)]"
  by (simp add: numeral_3_eq_3 get_or_create_vector_store_id_def get_or_create_slow_def
       loop_rm_ok[unfolded cfg0_def] initial_world_def cfg0_def truthy_def)

theorem resolver_memoizes_witness:
  "ids_nonempty rm_ok \<and>
   resolve_seq cfg0 rm_ok 3 (initial_world cfg0) =
     Some [(Inr ''vs_1'', \<lparr>vector_store_id_cache = Some ''vs_1'', history = [(CListStores None, Returned)]\<rparr>),
           (Inr ''vs_1'', \<lparr>vector_store_id_cache = Some ''vs_1'', history = [(CListStores None, Returned)]\<rparr>),
           (Inr ''vs_1'', \<lparr>vector_store_id_cache = Some ''vs_1'', history = [(CListStores None, Returned)]\<rparr>)] \<and>
   length (filter is_created [(CListStores None, Returned)]) \<le> 1"
  using resolver_memoizes[OF ids_nonempty_rm_ok resolve_seq_rm_ok] ids_nonempty_rm_ok resolve_seq_rm_ok
  by simp

section \<open>Memory writer: properties\<close>

lemma save_memory_resolved:
  assumes "strip (sa_memory a) \<noteq> []" and "int (length (sa_memory a)) \<le> MAX_MEMORY_CHARS cfg"
    and "get_or_create_vector_store_id cfg rm w = Some (w1, Inr v)"
    and "sha256_text ev (save_cleaned cfg a) = Inr mem_hash"
  shows "save_memory cfg ev rm a w =
     (case save_try ev rm v (save_cleaned cfg a) (save_filename ev a) (dflt ''default'' (sa_user_id a))
             (dflt ''note'' (sa_memory_type a)) mem_hash (save_do_redact cfg a)
             (sa_session_id a) (sa_tags a) w1 of
        (w2, d) \<Rightarrow> Some (w2, Inr d))"
  using assms by (simp add: save_memory_def Let_def)

text \<open>
  Claim C2, as stated, fails: with the upload returning \<open>file_1\<close> and the attribute update
  raising, the result of save has the two keys \<open>status\<close> and \<open>error\<close> and no \<open>file_id\<close>.
\<close>

theorem save_partial_failure_counterexample:
  "save_memory cfg0 ev0 rm_update_fails save_hello w_cached =
     Some (\<lparr>vector_store_id_cache = Some ''vs_1'',
            history =
              [(CUpload ''vs_1'' ''hello'' ''memory_default_0.txt'', Returned),
               (CUpdate ''vs_1'' ''file_1''
                  [(''user_id'', JStr ''default''), (''type'', JStr ''note''),
                   (''timestamp_utc'', JStr ''2026-01-01T00:00:00+00:00''),
                   (''sha256'', JStr ''00''), (''redacted'', JBool False)], Raised)]\<rparr>,
           Inr (JDict [(''status'', JStr ''error''), (''error'', JStr ''boom'')])) \<and>
   dict_get (JDict [(''status'', JStr ''error''), (''error'', JStr ''boom'')]) ''file_id'' = None"
  by code_simp

text \<open>
  Claim C2, amended. For every save call that reaches the upload: when the upload returns
  a file_id and the attribute update raises, the result of save is the dict of the status
  "error" and the message of the exception, and nothing else, so that the file_id
  obtained is not in it; and it is the result that save gives when the upload itself
  raises with that message.
\<close>

theorem save_partial_failure_payload:
  assumes "strip (sa_memory a) \<noteq> []" and "int (length (sa_memory a)) \<le> MAX_MEMORY_CHARS cfg"
    and "get_or_create_vector_store_id cfg rm w = Some (w1, Inr v)"
    and "sha256_text ev (save_cleaned cfg a) = Inr mem_hash"
  shows "let cleaned = save_cleaned cfg a;
             filename = save_filename ev a;
             attributes = save_attributes ev (dflt ''default'' (sa_user_id a)) (dflt ''note'' (sa_memory_type a))
                            mem_hash (save_do_redact cfg a) (sa_session_id a) (sa_tags a)
         in (\<forall>file_id e.
               files_upload_and_poll rm (history w1) v cleaned filename = Inr file_id \<and>
               files_update rm (history w1 @ [(CUpload v cleaned filename, Returned)]) v file_id attributes = Inl e
               \<longrightarrow> (\<exists>w2. save_memory cfg ev rm a w =
                          Some (w2, Inr (JDict [(''status'', JStr ''error''), (''error'', JStr (exn_str e))])) \<and>
                        calls_since w1 w2 = [CUpload v cleaned filename, CUpdate v file_id attributes])) \<and>
            (\<forall>e.
               files_upload_and_poll rm (history w1) v cleaned filename = Inl e
               \<longrightarrow> (\<exists>w2. save_memory cfg ev rm a w =
                          Some (w2, Inr (JDict [(''status'', JStr ''error''), (''error'', JStr (exn_str e))])) \<and>
                        calls_since w1 w2 = [CUpload v cleaned filename]))"
  unfolding save_memory_resolved[OF assms] Let_def
  by (simp add: save_try_def Let_def error_result_def calls_since_def events_since_def)

lemma save_hello_eval:
  "strip (sa_memory save_hello) \<noteq> [] \<and>
   int (length (sa_memory save_hello)) \<le> MAX_MEMORY_CHARS cfg0 \<and>
   sha256_text ev0 (save_cleaned cfg0 save_hello) = Inr ''00'' \<and>
   save_cleaned cfg0 save_hello = ''hello'' \<and>
   save_filename ev0 save_hello = ''memory_default_0.txt'' \<and>
   save_attributes ev0 (dflt ''default'' (sa_user_id save_hello)) (dflt ''note'' (sa_memory_type save_hello))
      ''00'' (save_do_redact cfg0 save_hello)
      (sa_session_id save_hello) (sa_tags save_hello) =
     [(''user_id'', JStr ''default''), (''type'', JStr ''note''),
      (''timestamp_utc'', JStr ''2026-01-01T00:00:00+00:00''),
      (''sha256'', JStr ''00''), (''redacted'', JBool False)]"
  by code_simp

theorem save_partial_failure_witness:
  "strip (sa_memory save_hello) \<noteq> [] \<and>
   int (length (sa_memory save_hello)) \<le> MAX_MEMORY_CHARS cfg0 \<and>
   get_or_create_vector_store_id cfg0 rm_update_fails w_cached = Some (w_cached, Inr ''vs_1'') \<and>
   get_or_create_vector_store_id cfg0 rm_upload_fails w_cached = Some (w_cached, Inr ''vs_1'') \<and>
   sha256_text ev0 (save_cleaned cfg0 save_hello) = Inr ''00'' \<and>
   files_upload_and_poll rm_update_fails (history w_cached) ''vs_1'' ''hello'' ''memory_default_0.txt''
     = Inr ''file_1'' \<and>
   files_update rm_update_fails (history w_cached @ [(CUpload ''vs_1'' ''hello'' ''memory_default_0.txt'', Returned)])
     ''vs_1'' ''file_1''
     [(''user_id'', JStr ''default''), (''type'', JStr ''note''),
      (''timestamp_utc'', JStr ''2026-01-01T00:00:00+00:00''),
      (''sha256'', JStr ''00''), (''redacted'', JBool False)] = Inl (OtherError ''boom'') \<and>
   files_upload_and_poll rm_upload_fails (history w_cached) ''vs_1'' ''hello'' ''memory_default_0.txt''
     = Inl (OtherError ''boom'') \<and>
   (\<exists>w2. save_memory cfg0 ev0 rm_update_fails save_hello w_cached =
            Some (w2, Inr (JDict [(''status'', JStr ''error''), (''error'', JStr ''boom'')])) \<and>
         calls_since w_cached w2 =
           [CUpload ''vs_1'' ''hello'' ''memory_default_0.txt'',
            CUpdate ''vs_1'' ''file_1''
              [(''user_id'', JStr ''default''), (''type'', JStr ''note''),
               (''timestamp_utc'', JStr ''2026-01-01T00:00:00+00:00''),
               (''sha256'', JStr ''00''), (''redacted'', JBool False)]]) \<and>
   (\<exists>w2. save_memory cfg0 ev0 rm_upload_fails save_hello w_cached =
            Some (w2, Inr (JDict [(''status'', JStr ''error''), (''error'', JStr ''boom'')])) \<and>
         calls_since w_cached w2 = [CUpload ''vs_1'' ''hello'' ''memory_default_0.txt''])"
proof -
  have h1: "strip (sa_memory save_hello) \<noteq> []" using save_hello_eval by blast
  have h2: "int (length (sa_memory save_hello)) \<le> MAX_MEMORY_CHARS cfg0" using save_hello_eval by blast
  have h4: "sha256_text ev0 (save_cleaned cfg0 save_hello) = Inr ''00''" using save_hello_eval by blast
  have at: "save_attributes ev0 (dflt ''default'' (sa_user_id save_hello)) (dflt ''note'' (sa_memory_type save_hello))
      ''00'' (save_do_redact cfg0 save_hello) (sa_session_id save_hello) (sa_tags save_hello) =
     [(''user_id'', JStr ''default''), (''type'', JStr ''note''),
      (''timestamp_utc'', JStr ''2026-01-01T00:00:00+00:00''),
      (''sha256'', JStr ''00''), (''redacted'', JBool False)]"
    using save_hello_eval by blast
  have cl: "save_cleaned cfg0 save_hello = ''hello''" using save_hello_eval by blast
  have fn: "save_filename ev0 save_hello = ''memory_default_0.txt''" using save_hello_eval by blast
  have u1: "files_upload_and_poll rm_update_fails (history w_cached) ''vs_1'' ''hello'' ''memory_default_0.txt''
     = Inr ''file_1''"
    by (simp add: rm_update_fails_def rm_ok_def)
  have u2: "files_update rm_update_fails (history w_cached @ [(CUpload ''vs_1'' ''hello'' ''memory_default_0.txt'', Returned)])
     ''vs_1'' ''file_1''
     [(''user_id'', JStr ''default''), (''type'', JStr ''note''),
      (''timestamp_utc'', JStr ''2026-01-01T00:00:00+00:00''),
      (''sha256'', JStr ''00''), (''redacted'', JBool False)] = Inl (OtherError ''boom'')"
    by (simp add: rm_update_fails_def rm_ok_def)
  have u3: "files_upload_and_poll rm_upload_fails (history w_cached) ''vs_1'' ''hello'' ''memory_default_0.txt''
     = Inl (OtherError ''boom'')"
    by (simp add: rm_upload_fails_def rm_ok_def)
  note t1 = save_partial_failure_payload[OF h1 h2 resolve_w_cached h4, where rm = rm_update_fails,
      unfolded Let_def at cl fn]
  note t2 = save_partial_failure_payload[OF h1 h2 resolve_w_cached h4, where rm = rm_upload_fails,
      unfolded Let_def at cl fn]
  from t1 u1 u2 have r1: "\<exists>w2. save_memory cfg0 ev0 rm_update_fails save_hello w_cached =
            Some (w2, Inr (JDict [(''status'', JStr ''error''), (''error'', JStr (exn_str (OtherError ''boom'')))])) \<and>
         calls_since w_cached w2 =
           [CUpload ''vs_1'' ''hello'' ''memory_default_0.txt'',
            CUpdate ''vs_1'' ''file_1''
              [(''user_id'', JStr ''default''), (''type'', JStr ''note''),
               (''timestamp_utc'', JStr ''2026-01-01T00:00:00+00:00''),
               (''sha256'', JStr ''00''), (''redacted'', JBool False)]]"
    by blast
  from t2 u3 have r2: "\<exists>w2. save_memory cfg0 ev0 rm_upload_fails save_hello w_cached =
            Some (w2, Inr (JDict [(''status'', JStr ''error''), (''error'', JStr (exn_str (OtherError ''boom'')))])) \<and>
         calls_since w_cached w2 = [CUpload ''vs_1'' ''hello'' ''memory_default_0.txt'']"
    by blast
  from h1 h2 h4 u1 u2 u3 r1 r2 resolve_w_cached[of cfg0 rm_update_fails] resolve_w_cached[of cfg0 rm_upload_fails]
  show ?thesis by simp
qed

section \<open>Catalog: properties\<close>







section \<open>Tool boundary\<close>

lemma save_try_status:
  "save_try ev rm v cl fn u t hh dr s g w1 = (w2, d) \<Longrightarrow>
     dict_get d ''status'' = Some (JStr (if any_raised w1 w2 then ''error'' else ''saved''))"
  by (auto simp: save_try_def Let_def any_raised_def events_since_def dict_get_def error_result_def
        split: sum.splits)

lemma delete_body_status:
  "delete_body rm fid v w1 = (w2, r) \<Longrightarrow>
     \<exists>d. r = Inr d \<and> dict_get d ''status'' = Some (JStr (if any_raised w1 w2 then ''error'' else ''ok''))"
  by (auto simp: delete_body_def any_raised_def events_since_def dict_get_def split: sum.splits)

lemma content_result_status:
  "dict_get (content_result v fid attrs r) ''status'' =
     Some (JStr (case r of Inl e \<Rightarrow> ''error'' | Inr texts \<Rightarrow> ''ok''))"
  by (simp add: content_result_def dict_get_def split: sum.splits exn.splits)

lemma get_content_body_status:
  assumes "files_retrieve rm (history w1) v fid = Inr detail"
    and "get_content_body rm fid v w1 = (w2, r)"
  shows "\<exists>d. r = Inr d \<and>
     dict_get d ''status'' =
       Some (JStr (if any_raised w1 w2 \<or>
                      (\<exists>obj e. files_content rm (history w1 @ [(CRetrieve v fid, Returned)]) v fid = Inr obj \<and>
                               content_texts obj = Inl e)
                   then ''error'' else ''ok''))"
proof (cases "files_content rm (history w1 @ [(CRetrieve v fid, Returned)]) v fid")
  case (Inl e)
  with assms show ?thesis
    by (auto simp: get_content_body_def Let_def any_raised_def events_since_def content_result_status)
next
  case (Inr obj)
  with assms have r: "r = Inr (content_result v fid (attrs_of detail) (content_texts obj))"
    and w2: "w2 = w1\<lparr>history := (history w1 @ [(CRetrieve v fid, Returned)]) @ [(CContent v fid, Returned)]\<rparr>"
    by (auto simp: get_content_body_def Let_def)
  from w2 have nr: "\<not> any_raised w1 w2" by (simp add: any_raised_def events_since_def)
  show ?thesis
  proof (cases "content_texts obj")
    case (Inl e)
    with r nr Inr show ?thesis by (simp add: content_result_status)
  next
    case (Inr texts)
    with r nr \<open>files_content rm (history w1 @ [(CRetrieve v fid, Returned)]) v fid = Inr obj\<close>
    show ?thesis by (simp add: content_result_status)
  qed
qed

text \<open>
  Claim C1, as stated, fails: when the listing of collections raises, the resolver raises,
  and the exception leaves \<open>list_memories\<close>, which has no handler.
\<close>

theorem tool_boundary_counterexample:
  "list_memories cfg0 rm_down list_u2 w_fresh =
     Some (\<lparr>vector_store_id_cache = None, history = [(CListStores None, Raised)]\<rparr>,
           Inl (OtherError ''down''))"
  by (simp add: list_memories_def get_or_create_vector_store_id_def get_or_create_slow_def
       loop_rm_down truthy_def w_fresh_def)

text \<open>
  Claim C1, amended. A failure of the resolver is caught by none of the five operations:
  it leaves the tool as the exception raised. Once the resolver has returned: save, when
  the hash of the text has been computed, and delete return a tagged result whatever
  their remote calls do, with the status "error" exactly when a remote call of the
  operation (upload, attribute update, delete) raised; get content, once its retrieve has
  returned, returns a tagged result, with the status "error" exactly when the content
  call raised or the reading of what it returned raised. A save or a search that fails
  validation returns a result tagged "error".
\<close>

theorem failures_tagged_or_raised:
  "(get_or_create_vector_store_id cfg rm w = Some (w1, Inl e) \<longrightarrow>
       (strip (sa_memory a) \<noteq> [] \<and> int (length (sa_memory a)) \<le> MAX_MEMORY_CHARS cfg \<longrightarrow>
           save_memory cfg ev rm a w = Some (w1, Inl e)) \<and>
       (strip (sq_query q) \<noteq> [] \<longrightarrow> search_memory cfg rm q w = Some (w1, Inl e)) \<and>
       list_memories cfg rm l w = Some (w1, Inl e) \<and>
       get_memory_content cfg rm fid w = Some (w1, Inl e) \<and>
       delete_memory cfg rm fid w = Some (w1, Inl e)) \<and>
   (get_or_create_vector_store_id cfg rm w = Some (w1, Inr v) \<longrightarrow>
       (strip (sa_memory a) \<noteq> [] \<and> int (length (sa_memory a)) \<le> MAX_MEMORY_CHARS cfg \<and>
        (\<exists>mem_hash. sha256_text ev (save_cleaned cfg a) = Inr mem_hash) \<longrightarrow>
          (\<exists>w2 d. save_memory cfg ev rm a w = Some (w2, Inr d) \<and>
             dict_get d ''status'' = Some (JStr (if any_raised w1 w2 then ''error'' else ''saved'')))) \<and>
       (\<exists>w2 d. delete_memory cfg rm fid w = Some (w2, Inr d) \<and>
             dict_get d ''status'' = Some (JStr (if any_raised w1 w2 then ''error'' else ''ok''))) \<and>
       (\<forall>detail. files_retrieve rm (history w1) v fid = Inr detail \<longrightarrow>
          (\<exists>w2 d. get_memory_content cfg rm fid w = Some (w2, Inr d) \<and>
             dict_get d ''status'' =
               Some (JStr (if any_raised w1 w2 \<or>
                              (\<exists>obj e. files_content rm (history w1 @ [(CRetrieve v fid, Returned)]) v fid = Inr obj \<and>
                                       content_texts obj = Inl e)
                           then ''error'' else ''ok''))))) \<and>
   (strip (sa_memory a) = [] \<or> int (length (sa_memory a)) > MAX_MEMORY_CHARS cfg \<longrightarrow>
       (\<exists>d. save_memory cfg ev rm a w = Some (w, Inr d) \<and> dict_get d ''status'' = Some (JStr ''error''))) \<and>
   (strip (sq_query q) = [] \<longrightarrow>
       (\<exists>d. search_memory cfg rm q w = Some (w, Inr d) \<and> dict_get d ''status'' = Some (JStr ''error'')))"
proof (intro conjI impI)
  assume r: "get_or_create_vector_store_id cfg rm w = Some (w1, Inl e)"
  show "list_memories cfg rm l w = Some (w1, Inl e)" using r by (simp add: list_memories_def)
  show "get_memory_content cfg rm fid w = Some (w1, Inl e)" using r by (simp add: get_memory_content_def)
  show "delete_memory cfg rm fid w = Some (w1, Inl e)" using r by (simp add: delete_memory_def)
  show "save_memory cfg ev rm a w = Some (w1, Inl e)"
    if "strip (sa_memory a) \<noteq> [] \<and> int (length (sa_memory a)) \<le> MAX_MEMORY_CHARS cfg"
    using r that by (simp add: save_memory_def Let_def)
  show "search_memory cfg rm q w = Some (w1, Inl e)" if "strip (sq_query q) \<noteq> []"
    using r that by (simp add: search_memory_def Let_def)
next
  assume r: "get_or_create_vector_store_id cfg rm w = Some (w1, Inr v)"
  show "\<exists>w2 d. save_memory cfg ev rm a w = Some (w2, Inr d) \<and>
             dict_get d ''status'' = Some (JStr (if any_raised w1 w2 then ''error'' else ''saved''))"
    if h: "strip (sa_memory a) \<noteq> [] \<and> int (length (sa_memory a)) \<le> MAX_MEMORY_CHARS cfg \<and>
        (\<exists>mem_hash. sha256_text ev (save_cleaned cfg a) = Inr mem_hash)"
  proof -
    from h obtain mem_hash where mh: "sha256_text ev (save_cleaned cfg a) = Inr mem_hash" by blast
    obtain w2 d where st: "save_try ev rm v (save_cleaned cfg a) (save_filename ev a) (dflt ''default'' (sa_user_id a))
             (dflt ''note'' (sa_memory_type a)) mem_hash (save_do_redact cfg a)
             (sa_session_id a) (sa_tags a) w1 = (w2, d)" by fastforce
    from h r mh have "save_memory cfg ev rm a w = Some (w2, Inr d)"
      by (simp add: save_memory_resolved st)
    with save_try_status[OF st] show ?thesis by blast
  qed
  show "\<exists>w2 d. delete_memory cfg rm fid w = Some (w2, Inr d) \<and>
             dict_get d ''status'' = Some (JStr (if any_raised w1 w2 then ''error'' else ''ok''))"
  proof -
    obtain w2 res where b: "delete_body rm fid v w1 = (w2, res)" by fastforce
    from delete_body_status[OF b] obtain d where "res = Inr d"
      "dict_get d ''status'' = Some (JStr (if any_raised w1 w2 then ''error'' else ''ok''))" by blast
    with r b show ?thesis by (simp add: delete_memory_def)
  qed
  show "\<forall>detail. files_retrieve rm (history w1) v fid = Inr detail \<longrightarrow>
          (\<exists>w2 d. get_memory_content cfg rm fid w = Some (w2, Inr d) \<and>
             dict_get d ''status'' =
               Some (JStr (if any_raised w1 w2 \<or>
                              (\<exists>obj e. files_content rm (history w1 @ [(CRetrieve v fid, Returned)]) v fid = Inr obj \<and>
                                       content_texts obj = Inl e)
                           then ''error'' else ''ok'')))"
  proof (intro allI impI)
    fix detail assume fr: "files_retrieve rm (history w1) v fid = Inr detail"
    obtain w2 res where b: "get_content_body rm fid v w1 = (w2, res)" by fastforce
    from get_content_body_status[OF fr b] obtain d where "res = Inr d"
      "dict_get d ''status'' =
               Some (JStr (if any_raised w1 w2 \<or>
                              (\<exists>obj e. files_content rm (history w1 @ [(CRetrieve v fid, Returned)]) v fid = Inr obj \<and>
                                       content_texts obj = Inl e)
                           then ''error'' else ''ok''))" by blast
    with r b show "\<exists>w2 d. get_memory_content cfg rm fid w = Some (w2, Inr d) \<and>
             dict_get d ''status'' =
               Some (JStr (if any_raised w1 w2 \<or>
                              (\<exists>obj e. files_content rm (history w1 @ [(CRetrieve v fid, Returned)]) v fid = Inr obj \<and>
                                       content_texts obj = Inl e)
                           then ''error'' else ''ok''))"
      by (simp add: get_memory_content_def)
  qed
next
  assume "strip (sa_memory a) = [] \<or> int (length (sa_memory a)) > MAX_MEMORY_CHARS cfg"
  then show "\<exists>d. save_memory cfg ev rm a w = Some (w, Inr d) \<and> dict_get d ''status'' = Some (JStr ''error'')"
    by (auto simp: save_memory_def Let_def dict_get_def error_result_def)
next
  assume "strip (sq_query q) = []"
  then show "\<exists>d. search_memory cfg rm q w = Some (w, Inr d) \<and> dict_get d ''status'' = Some (JStr ''error'')"
    by (auto simp: search_memory_def Let_def dict_get_def error_result_def)
qed

lemma resolve_rm_down:
  "get_or_create_vector_store_id cfg0 rm_down w_fresh =
     Some (\<lparr>vector_store_id_cache = None, history = [(CListStores None, Raised)]\<rparr>, Inl (OtherError ''down''))"
  by (simp add: get_or_create_vector_store_id_def get_or_create_slow_def loop_rm_down truthy_def w_fresh_def)

lemma content_no_get_eval:
  "get_memory_content cfg0 rm_content_no_get ''file_1'' w_cached =
     Some (\<lparr>vector_store_id_cache = Some ''vs_1'',
            history = [(CRetrieve ''vs_1'' ''file_1'', Returned), (CContent ''vs_1'' ''file_1'', Returned)]\<rparr>,
           Inr (JDict [(''status'', JStr ''error''), (''error'', JStr msg_no_content),
                       (''vector_store_id'', JStr ''vs_1''), (''file_id'', JStr ''file_1''),
                       (''attributes'', JDict [(''user_id'', JStr ''u1'')])]))"
  by code_simp

theorem failures_tagged_or_raised_witness:
  "get_or_create_vector_store_id cfg0 rm_down w_fresh =
     Some (\<lparr>vector_store_id_cache = None, history = [(CListStores None, Raised)]\<rparr>, Inl (OtherError ''down'')) \<and>
   strip (sa_memory save_hello) \<noteq> [] \<and> int (length (sa_memory save_hello)) \<le> MAX_MEMORY_CHARS cfg0 \<and>
   sha256_text ev0 (save_cleaned cfg0 save_hello) = Inr ''00'' \<and>
   strip (sq_query search_dark) \<noteq> [] \<and>
   save_memory cfg0 ev0 rm_down save_hello w_fresh =
     Some (\<lparr>vector_store_id_cache = None, history = [(CListStores None, Raised)]\<rparr>, Inl (OtherError ''down'')) \<and>
   search_memory cfg0 rm_down search_dark w_fresh =
     Some (\<lparr>vector_store_id_cache = None, history = [(CListStores None, Raised)]\<rparr>, Inl (OtherError ''down'')) \<and>
   delete_memory cfg0 rm_down ''file_1'' w_fresh =
     Some (\<lparr>vector_store_id_cache = None, history = [(CListStores None, Raised)]\<rparr>, Inl (OtherError ''down'')) \<and>
   get_or_create_vector_store_id cfg0 rm_update_fails w_cached = Some (w_cached, Inr ''vs_1'') \<and>
   get_or_create_vector_store_id cfg0 rm_content_no_get w_cached = Some (w_cached, Inr ''vs_1'') \<and>
   files_retrieve rm_content_no_get (history w_cached) ''vs_1'' ''file_1'' =
     Inr \<lparr>fd_id = ''file_1'', fd_created_at = Some 1, fd_status = Some ''completed'',
          fd_attributes = Some [(''user_id'', JStr ''u1'')]\<rparr> \<and>
   (\<exists>w2 d. save_memory cfg0 ev0 rm_update_fails save_hello w_cached = Some (w2, Inr d) \<and>
      dict_get d ''status'' = Some (JStr (if any_raised w_cached w2 then ''error'' else ''saved''))) \<and>
   (\<exists>w2 d. get_memory_content cfg0 rm_content_no_get ''file_1'' w_cached = Some (w2, Inr d) \<and>
      \<not> any_raised w_cached w2 \<and> dict_get d ''status'' = Some (JStr ''error''))"
proof -
  have h1: "strip (sa_memory save_hello) \<noteq> [] \<and> int (length (sa_memory save_hello)) \<le> MAX_MEMORY_CHARS cfg0"
    using save_hello_eval by blast
  have h1': "sha256_text ev0 (save_cleaned cfg0 save_hello) = Inr ''00''"
    using save_hello_eval by blast
  have h2: "files_retrieve rm_content_no_get (history w_cached) ''vs_1'' ''file_1'' =
     Inr \<lparr>fd_id = ''file_1'', fd_created_at = Some 1, fd_status = Some ''completed'',
          fd_attributes = Some [(''user_id'', JStr ''u1'')]\<rparr>"
    by (simp add: rm_content_no_get_def rm_ok_def)
  note a = failures_tagged_or_raised[where cfg = cfg0 and rm = rm_down and w = w_fresh and a = save_hello
      and q = search_dark and ev = ev0 and fid = "''file_1''"
      and ?w1.0 = "\<lparr>vector_store_id_cache = None, history = [(CListStores None, Raised)]\<rparr>"
      and e = "OtherError ''down''"]
  note b = failures_tagged_or_raised[where cfg = cfg0 and rm = rm_update_fails and w = w_cached and a = save_hello
      and ev = ev0 and fid = "''file_1''" and ?w1.0 = w_cached and v = "''vs_1''"]
  note c = failures_tagged_or_raised[where cfg = cfg0 and rm = rm_content_no_get and w = w_cached and a = save_hello
      and ev = ev0 and fid = "''file_1''" and ?w1.0 = w_cached and v = "''vs_1''"]
  from a resolve_rm_down h1 strip_dark
  have a': "save_memory cfg0 ev0 rm_down save_hello w_fresh =
     Some (\<lparr>vector_store_id_cache = None, history = [(CListStores None, Raised)]\<rparr>, Inl (OtherError ''down'')) \<and>
   search_memory cfg0 rm_down search_dark w_fresh =
     Some (\<lparr>vector_store_id_cache = None, history = [(CListStores None, Raised)]\<rparr>, Inl (OtherError ''down'')) \<and>
   delete_memory cfg0 rm_down ''file_1'' w_fresh =
     Some (\<lparr>vector_store_id_cache = None, history = [(CListStores None, Raised)]\<rparr>, Inl (OtherError ''down''))"
    by blast
  from b resolve_w_cached[of cfg0 rm_update_fails] h1 h1'
  have b': "\<exists>w2 d. save_memory cfg0 ev0 rm_update_fails save_hello w_cached = Some (w2, Inr d) \<and>
      dict_get d ''status'' = Some (JStr (if any_raised w_cached w2 then ''error'' else ''saved''))"
    by blast
  from c resolve_w_cached[of cfg0 rm_content_no_get] h2
  have "\<exists>w2 d. get_memory_content cfg0 rm_content_no_get ''file_1'' w_cached = Some (w2, Inr d)"
    by blast
  with content_no_get_eval
  have c': "\<exists>w2 d. get_memory_content cfg0 rm_content_no_get ''file_1'' w_cached = Some (w2, Inr d) \<and>
      \<not> any_raised w_cached w2 \<and> dict_get d ''status'' = Some (JStr ''error'')"
    by (simp add: any_raised_def events_since_def w_cached_def dict_get_def)
  from resolve_rm_down h1 h1' strip_dark a' resolve_w_cached[of cfg0 rm_update_fails]
    resolve_w_cached[of cfg0 rm_content_no_get] h2 b' c'
  show ?thesis by blast
qed

end
